theory Spec2Isabelle
  imports Main
begin

section \<open>The sidecar-injection analyzer of galley (injection.go)\<close>

text \<open>
  The analyzer makes three passes over a snapshot of namespaces and pods: it gathers
  the revisions of the control plane, classifies every namespace by its injection
  labels, and checks the pods of the injected namespaces for a proxy container.
  The model follows \<^verbatim>\<open>Analyzer.Analyze\<close> and \<^verbatim>\<open>isControlPlane\<close> statement by
  statement. The closures of the three \<^verbatim>\<open>ForEach\<close> calls share the locals of
  \<^verbatim>\<open>Analyze\<close>; the model passes them along as a record.
\<close>

subsection \<open>Data\<close>

text \<open>
  A Go \<^verbatim>\<open>map[string]string\<close> is a partial map. Indexing it with one result gives
  the zero value \<^verbatim>\<open>""\<close> for a missing key (\<open>index\<close>); the two-result form also
  tells whether the key is there, which is the \<open>option\<close> itself.
\<close>

type_synonym labels = "string \<rightharpoonup> string"

definition index :: "labels \<Rightarrow> string \<Rightarrow> string" where
  "index m k = (case m k of None \<Rightarrow> [] | Some v \<Rightarrow> v)"

text \<open>
  A \<^verbatim>\<open>map[string]bool\<close> indexed with one result gives \<^verbatim>\<open>false\<close> for a missing key.
\<close>

definition indexBool :: "(string \<rightharpoonup> bool) \<Rightarrow> string \<Rightarrow> bool" where
  "indexBool m k = (case m k of None \<Rightarrow> False | Some b \<Rightarrow> b)"

text \<open>\<^verbatim>\<open>v1.Container\<close>: the two fields the analyzer reads.\<close>

record Container =
  container_Name :: string
  container_Image :: string

text \<open>
  \<^verbatim>\<open>v1.Pod\<close>: what \<^verbatim>\<open>GetNamespace\<close>, \<^verbatim>\<open>GetLabels\<close> and \<^verbatim>\<open>GetAnnotations\<close> return,
  and \<^verbatim>\<open>Spec.Containers\<close>.
\<close>

record Pod =
  GetNamespace :: string
  GetLabels :: labels
  GetAnnotations :: labels
  Containers :: "Container list"

text \<open>
  \<^verbatim>\<open>resource.Instance\<close>: the metadata of the resource (its full name as
  \<^verbatim>\<open>FullName.String()\<close> renders it, and its labels) and its message, an interface
  value that holds a pod or something else.
\<close>

record Metadata =
  FullName :: string
  Labels :: labels

datatype Message = PodMessage Pod | OtherMessage

record Instance =
  Metadata :: Metadata
  Message :: Message

text \<open>
  The snapshot behind \<^verbatim>\<open>analysis.Context\<close>: the two collections the analyzer
  declares as inputs, each in the order in which \<^verbatim>\<open>ForEach\<close> visits it.
\<close>

record Context =
  Pods :: "Instance list"
  Namespaces :: "Instance list"

datatype Collection = K8SCoreV1Namespaces | K8SCoreV1Pods

text \<open>
  The four messages of package \<^verbatim>\<open>msg\<close> that the analyzer builds, with the
  arguments of their constructors: the resource first, then the strings.
\<close>

datatype Diagnostic =
    NamespaceNotInjected Instance string string
  | NamespaceMultipleInjectionLabels Instance string string
  | NamespaceInvalidInjectorRevision Instance string string string
  | PodMissingProxy Instance

type_synonym Report = "Collection \<times> Diagnostic"

text \<open>The resource a message is about (the first argument of its constructor).\<close>

fun origin :: "Diagnostic \<Rightarrow> Instance" where
  "origin (NamespaceNotInjected r _ _) = r"
| "origin (NamespaceMultipleInjectionLabels r _ _) = r"
| "origin (NamespaceInvalidInjectorRevision r _ _ _) = r"
| "origin (PodMissingProxy r) = r"

text \<open>
  The type assertion \<^verbatim>\<open>r.Message.(*v1.Pod)\<close> panics when the message is not a pod.
\<close>

datatype panic = InterfaceConversion

definition assertPod :: "Message \<Rightarrow> panic + Pod" where
  "assertPod m = (case m of PodMessage pod \<Rightarrow> Inr pod | OtherMessage \<Rightarrow> Inl InterfaceConversion)"

subsection \<open>Constants\<close>

definition InjectionLabelName :: string where
  "InjectionLabelName = ''istio-injection''"

definition InjectionLabelEnableValue :: string where
  "InjectionLabelEnableValue = ''enabled''"

definition istioProxyName :: string where
  "istioProxyName = ''istio-proxy''"

text \<open>
  Modelled from the spec: \<^verbatim>\<open>model.RevisionLabel\<close>, declared in package
  \<^verbatim>\<open>pilot/pkg/model\<close>; the spec's scenario A writes the label as
  \<^verbatim>\<open>istio.io/rev=canary\<close>.
\<close>

definition RevisionLabel :: string where
  "RevisionLabel = ''istio.io/rev''"

definition RevisionInjectionLabelName :: string where
  "RevisionInjectionLabelName = RevisionLabel"

text \<open>
  Modelled from the spec: \<^verbatim>\<open>constants.IstioSystemNamespace\<close>, declared in package
  \<^verbatim>\<open>pkg/config/constants\<close>: the spec's reserved mesh system namespace, which the
  comment in \<^verbatim>\<open>isControlPlane\<close> calls \<^verbatim>\<open>istio-system\<close>.
\<close>

definition IstioSystemNamespace :: string where
  "IstioSystemNamespace = ''istio-system''"

text \<open>
  Modelled from the spec: \<^verbatim>\<open>annotation.SidecarInject.Name\<close>, declared in
  \<^verbatim>\<open>istio.io/api/annotation\<close>; the spec's scenario C writes the annotation as
  \<^verbatim>\<open>sidecar.istio.io/inject=false\<close>.
\<close>

definition SidecarInjectName :: string where
  "SidecarInjectName = ''sidecar.istio.io/inject''"

subsection \<open>Functions of the Go standard library\<close>

text \<open>
  \<^verbatim>\<open>strings.Join(elems, sep)\<close>.
\<close>

fun Join :: "string list \<Rightarrow> string \<Rightarrow> string" where
  "Join [] sep = []"
| "Join [x] sep = x"
| "Join (x # y # ys) sep = x @ sep @ Join (y # ys) sep"

text \<open>
  \<^verbatim>\<open>strings.EqualFold(s, t)\<close> for a second argument of ASCII bytes (the analyzer
  passes the literal \<^verbatim>\<open>"false"\<close>). Go decodes both strings rune by rune and compares
  the runes under Unicode simple case folding. An ASCII rune folds with itself,
  a letter also with its other case, and the letters k and s also with the Kelvin sign
  U+212A and the long s U+017F, whose UTF-8 encodings are E2 84 AA and C5 BF. No other
  rune, and no invalid byte, folds with an ASCII rune. \<open>foldsWith t\<close> lists the
  encodings of the runes that fold with \<open>t\<close>; no one of them is a prefix of another.
\<close>

definition isLower :: "char \<Rightarrow> bool" where
  "isLower c \<longleftrightarrow> 97 \<le> (of_char c :: nat) \<and> (of_char c :: nat) \<le> 122"

definition isUpper :: "char \<Rightarrow> bool" where
  "isUpper c \<longleftrightarrow> 65 \<le> (of_char c :: nat) \<and> (of_char c :: nat) \<le> 90"

definition toLower :: "char \<Rightarrow> char" where
  "toLower c = (if isUpper c then char_of (of_char c + (32::nat)) else c)"

definition toUpper :: "char \<Rightarrow> char" where
  "toUpper c = (if isLower c then char_of (of_char c - (32::nat)) else c)"

definition foldsWith :: "char \<Rightarrow> string list" where
  "foldsWith t =
     (if isLower t \<or> isUpper t then
        [[toLower t], [toUpper t]] @
        (if toLower t = CHR ''k'' then [[CHR 0xE2, CHR 0x84, CHR 0xAA]]
         else if toLower t = CHR ''s'' then [[CHR 0xC5, CHR 0xBF]]
         else [])
      else [[t]])"

fun EqualFold :: "string \<Rightarrow> string \<Rightarrow> bool" where
  "EqualFold s [] = (s = [])"
| "EqualFold s (t # ts) =
     list_ex (\<lambda>e. take (length e) s = e \<and> EqualFold (drop (length e) s) ts) (foldsWith t)"

subsection \<open>Iteration\<close>

text \<open>
  \<^verbatim>\<open>c.ForEach(collection, fn)\<close> calls \<open>fn\<close> on the resources of the collection in
  turn, until \<open>fn\<close> returns false. Every \<^verbatim>\<open>return\<close> of the three closures is
  \<^verbatim>\<open>return true\<close>, so the flag is left out: a closure here maps the locals it shares
  to their new values, or panics, and a panic ends the iteration.
\<close>

fun ForEach :: "('a \<Rightarrow> 's \<Rightarrow> panic + 's) \<Rightarrow> 'a list \<Rightarrow> 's \<Rightarrow> panic + 's" where
  "ForEach fn [] s = Inr s"
| "ForEach fn (r # rs) s = (case fn r s of Inl p \<Rightarrow> Inl p | Inr s' \<Rightarrow> ForEach fn rs s')"

text \<open>
  Ranging over a Go map yields every key once, in an order the language leaves open and
  the runtime varies from one loop to the next. \<open>rangeOrder m ks\<close> says that \<open>ks\<close>
  is an order in which \<^verbatim>\<open>for k := range m\<close> may yield the keys of \<open>m\<close>.
\<close>

definition rangeOrder :: "('k \<rightharpoonup> 'v) \<Rightarrow> 'k list \<Rightarrow> bool" where
  "rangeOrder m ks \<longleftrightarrow> distinct ks \<and> set ks = dom m"

subsection \<open>The analyzer\<close>

text \<open>
  The locals of \<^verbatim>\<open>Analyze\<close> that its closures share, and the messages reported on the
  context so far (\<^verbatim>\<open>c.Report\<close> appends one).
\<close>

record Locals =
  controlPlaneRevisions :: "string \<rightharpoonup> bool"
  injectedNamespaces :: "string \<rightharpoonup> bool"
  reports :: "Report list"

definition Report :: "Collection \<Rightarrow> Diagnostic \<Rightarrow> Locals \<Rightarrow> Locals" where
  "Report col m s = s\<lparr>reports := reports s @ [(col, m)]\<rparr>"

definition isControlPlane :: "Pod \<Rightarrow> bool" where
  "isControlPlane pod =
     (if GetNamespace pod \<noteq> IstioSystemNamespace then False
      else let app = index (GetLabels pod) ''app'' in app = ''istiod'')"

text \<open>The closure of the first pass: gather the revisions of the control plane.\<close>

definition gatherRevision :: "Instance \<Rightarrow> Locals \<Rightarrow> panic + Locals" where
  "gatherRevision r s =
     (case assertPod (Message r) of
        Inl p \<Rightarrow> Inl p
      | Inr pod \<Rightarrow>
          if isControlPlane pod then
            (case Labels (Metadata r) RevisionLabel of
               Some revision \<Rightarrow>
                 Inr (s\<lparr>controlPlaneRevisions := (controlPlaneRevisions s)(revision \<mapsto> True)\<rparr>)
             | None \<Rightarrow> Inr s)
          else Inr s)"

text \<open>
  The closure of the second pass. \<open>IsSystemNamespace\<close> is \<^verbatim>\<open>util.IsSystemNamespace\<close>,
  of a package that is not part of these sources: it is a parameter. \<open>revisions\<close> is
  the slice that \<^verbatim>\<open>Analyze\<close> fills by ranging over \<open>controlPlaneRevisions\<close>.
  \<open>injected\<close> is the state after the last statement of the closure,
  \<^verbatim>\<open>injectedNamespaces[ns] = true\<close>, which both branches of the second
  \<^verbatim>\<open>if\<close> fall through to.
\<close>

definition resolveNamespace ::
  "(string \<Rightarrow> bool) \<Rightarrow> string list \<Rightarrow> Instance \<Rightarrow> Locals \<Rightarrow> Locals" where
  "resolveNamespace IsSystemNamespace revisions r s =
     (let ns = FullName (Metadata r) in
      if IsSystemNamespace ns then s
      else
        let injectionLabel = index (Labels (Metadata r)) InjectionLabelName;
            lookup = Labels (Metadata r) RevisionInjectionLabelName;
            newInjectionLabel = (case lookup of None \<Rightarrow> [] | Some v \<Rightarrow> v);
            okNewInjectionLabel = (lookup \<noteq> None);
            injected = s\<lparr>injectedNamespaces := (injectedNamespaces s)(ns \<mapsto> True)\<rparr>
        in
          if injectionLabel = [] \<and> \<not> okNewInjectionLabel then
            Report K8SCoreV1Namespaces (NamespaceNotInjected r ns ns) s
          else if okNewInjectionLabel then
            (if injectionLabel \<noteq> [] then
               Report K8SCoreV1Namespaces (NamespaceMultipleInjectionLabels r ns ns) s
             else if controlPlaneRevisions s newInjectionLabel = None then
               Report K8SCoreV1Namespaces
                 (NamespaceInvalidInjectorRevision r newInjectionLabel ns (Join revisions '', '')) s
             else injected)
          else if injectionLabel \<noteq> InjectionLabelEnableValue then s
          else injected)"

text \<open>
  The loop over the containers of a pod: the image of the first container named
  \<^verbatim>\<open>istio-proxy\<close> (the loop breaks there), or the initial \<^verbatim>\<open>""\<close>.
\<close>

fun proxyImageLoop :: "Container list \<Rightarrow> string \<Rightarrow> string" where
  "proxyImageLoop [] proxyImage = proxyImage"
| "proxyImageLoop (container # cs) proxyImage =
     (if container_Name container = istioProxyName then container_Image container
      else proxyImageLoop cs proxyImage)"

text \<open>The closure of the third pass.\<close>

definition checkPod :: "Instance \<Rightarrow> Locals \<Rightarrow> panic + Locals" where
  "checkPod r s =
     (case assertPod (Message r) of
        Inl p \<Rightarrow> Inl p
      | Inr pod \<Rightarrow>
          if \<not> indexBool (injectedNamespaces s) (GetNamespace pod) then Inr s
          else if EqualFold (index (GetAnnotations pod) SidecarInjectName) ''false'' then Inr s
          else
            let proxyImage = proxyImageLoop (Containers pod) [] in
            if proxyImage = [] then Inr (Report K8SCoreV1Pods (PodMissingProxy r) s)
            else Inr s)"

text \<open>
  \<^verbatim>\<open>Analyze\<close>. The result holds the locals at the end of the function and the messages
  reported. \<open>revisions\<close> stands for the order in which the loop
  \<^verbatim>\<open>for revision := range controlPlaneRevisions\<close> yields the keys: the run is one of
  the program's when \<open>rangeOrder\<close> holds of it and the map gathered by the first pass.
\<close>

definition initialLocals :: Locals where
  "initialLocals = \<lparr>controlPlaneRevisions = Map.empty, injectedNamespaces = Map.empty, reports = []\<rparr>"

definition Analyze :: "(string \<Rightarrow> bool) \<Rightarrow> string list \<Rightarrow> Context \<Rightarrow> panic + Locals" where
  "Analyze IsSystemNamespace revisions c =
     (case ForEach gatherRevision (Pods c) initialLocals of
        Inl p \<Rightarrow> Inl p
      | Inr s1 \<Rightarrow>
          (case ForEach (\<lambda>r s. Inr (resolveNamespace IsSystemNamespace revisions r s)) (Namespaces c) s1 of
             Inl p \<Rightarrow> Inl p
           | Inr s2 \<Rightarrow> ForEach checkPod (Pods c) s2))"

subsection \<open>Notions for stating the properties\<close>

text \<open>The message of a resource is a pod: the type assertion on it does not panic.\<close>

definition holdsPod :: "Instance \<Rightarrow> bool" where
  "holdsPod r = (case Message r of PodMessage pod \<Rightarrow> True | OtherMessage \<Rightarrow> False)"

text \<open>The revision that the first pass takes from a resource, if any.\<close>

definition revisionOf :: "Instance \<Rightarrow> string option" where
  "revisionOf r =
     (case Message r of
        PodMessage pod \<Rightarrow> if isControlPlane pod then Labels (Metadata r) RevisionLabel else None
      | OtherMessage \<Rightarrow> None)"

definition gathered :: "Instance list \<Rightarrow> (string \<rightharpoonup> bool) \<Rightarrow> (string \<rightharpoonup> bool)" where
  "gathered pods m = (\<lambda>k. if Some k \<in> revisionOf ` set pods then Some True else m k)"

text \<open>
  What the closure of the second pass does for one namespace, given the revision map:
  its run from locals that hold nothing else.
\<close>

definition namespaceEffect ::
  "(string \<Rightarrow> bool) \<Rightarrow> (string \<rightharpoonup> bool) \<Rightarrow> string list \<Rightarrow> Instance \<Rightarrow> Locals" where
  "namespaceEffect IsSystemNamespace cpr revisions r =
     resolveNamespace IsSystemNamespace revisions r (initialLocals\<lparr>controlPlaneRevisions := cpr\<rparr>)"

definition injectedBy ::
  "(string \<Rightarrow> bool) \<Rightarrow> (string \<rightharpoonup> bool) \<Rightarrow> string list \<Rightarrow> Instance list \<Rightarrow> (string \<rightharpoonup> bool)" where
  "injectedBy IsSystemNamespace cpr revisions nss =
     (\<lambda>k. if \<exists>r \<in> set nss. injectedNamespaces (namespaceEffect IsSystemNamespace cpr revisions r) k \<noteq> None
          then Some True else None)"

text \<open>What the closure of the third pass reports for one pod, given the injected set.\<close>

definition podReports :: "(string \<rightharpoonup> bool) \<Rightarrow> Instance \<Rightarrow> Report list" where
  "podReports injected r =
     (case checkPod r (initialLocals\<lparr>injectedNamespaces := injected\<rparr>) of
        Inl p \<Rightarrow> [] | Inr s \<Rightarrow> reports s)"

text \<open>
  The messages of a run that were reported on collection \<open>col\<close> about resource \<open>r\<close>,
  in the order of their emission.
\<close>

definition reportsAbout :: "Collection \<Rightarrow> Instance \<Rightarrow> Report list \<Rightarrow> Report list" where
  "reportsAbout col r rs = filter (\<lambda>x. fst x = col \<and> origin (snd x) = r) rs"

text \<open>
  The five outcomes that the spec's decision table gives a namespace, told by what a run
  shows of it: the messages about it on the namespace collection, and whether its name is
  in the injected set at the end.
\<close>

datatype Outcome =
  NotInjectedByAbsence | MultipleLabelConflict | InvalidRevision | Enabled | ExplicitlyDisabled

definition hasOutcome :: "Instance \<Rightarrow> Locals \<Rightarrow> Outcome \<Rightarrow> bool" where
  "hasOutcome r s out =
     (let ns = FullName (Metadata r);
          about = map snd (reportsAbout K8SCoreV1Namespaces r (reports s));
          injected = (injectedNamespaces s ns = Some True)
      in case out of
           NotInjectedByAbsence \<Rightarrow> about = [NamespaceNotInjected r ns ns] \<and> \<not> injected
         | MultipleLabelConflict \<Rightarrow> about = [NamespaceMultipleInjectionLabels r ns ns] \<and> \<not> injected
         | InvalidRevision \<Rightarrow>
             (case about of
                [NamespaceInvalidInjectorRevision r' v ns' known] \<Rightarrow> r' = r \<and> ns' = ns
              | _ \<Rightarrow> False) \<and> \<not> injected
         | Enabled \<Rightarrow> about = [] \<and> injected
         | ExplicitlyDisabled \<Rightarrow> about = [] \<and> \<not> injected)"

text \<open>
  A report without the list of known revisions that an invalid-revision message carries.
\<close>

definition withoutKnownRevisions :: "Report \<Rightarrow> Report" where
  "withoutKnownRevisions x =
     (case snd x of
        NamespaceInvalidInjectorRevision r v ns known \<Rightarrow>
          (fst x, NamespaceInvalidInjectorRevision r v ns [])
      | _ \<Rightarrow> x)"

subsection \<open>An example snapshot\<close>

text \<open>
  An instance of the parameter \<open>IsSystemNamespace\<close> for the examples: the namespaces
  of Kubernetes itself.
\<close>

definition exampleSystemNamespace :: "string \<Rightarrow> bool" where
  "exampleSystemNamespace ns \<longleftrightarrow> ns = ''kube-system'' \<or> ns = ''kube-public''"

definition namespaceWith :: "string \<Rightarrow> (string \<times> string) list \<Rightarrow> Instance" where
  "namespaceWith name ls =
     \<lparr>Metadata = \<lparr>FullName = name, Labels = map_of ls\<rparr>, Message = OtherMessage\<rparr>"

definition podWith ::
  "string \<Rightarrow> string \<Rightarrow> (string \<times> string) list \<Rightarrow> (string \<times> string) list \<Rightarrow> Container list \<Rightarrow> Instance" where
  "podWith ns name ls anns cs =
     \<lparr>Metadata = \<lparr>FullName = ns @ ''/'' @ name, Labels = map_of ls\<rparr>,
      Message = PodMessage
        \<lparr>GetNamespace = ns, GetLabels = map_of ls, GetAnnotations = map_of anns, Containers = cs\<rparr>\<rparr>"

definition appContainer :: Container where
  "appContainer = \<lparr>container_Name = ''app'', container_Image = ''nginx''\<rparr>"

definition proxyContainer :: "string \<Rightarrow> Container" where
  "proxyContainer img = \<lparr>container_Name = ''istio-proxy'', container_Image = img\<rparr>"

definition istiodPod :: "string \<Rightarrow> Instance" where
  "istiodPod revision =
     podWith ''istio-system'' (''istiod-'' @ revision)
       [(''app'', ''istiod''), (''istio.io/rev'', revision)] [] [appContainer]"

definition webPod :: Instance where
  "webPod = podWith ''ns1'' ''web'' [] [] [appContainer, proxyContainer ''proxyv2'']"

definition strayPod :: Instance where
  "strayPod = podWith ''ns2'' ''stray'' [] [] [appContainer]"

definition optoutPod :: Instance where
  "optoutPod = podWith ''ns3'' ''optout'' [] [(''sidecar.istio.io/inject'', ''False'')] [appContainer]"

definition barePod :: Instance where
  "barePod = podWith ''ns4'' ''bare'' [] [] [appContainer]"

definition twicePod :: Instance where
  "twicePod = podWith ''ns4'' ''twice'' [] [] [proxyContainer [], proxyContainer ''proxyv2'']"

definition kubeSystem :: Instance where
  "kubeSystem = namespaceWith ''kube-system'' [(''istio.io/rev'', ''stale'')]"

definition ns1 :: Instance where
  "ns1 = namespaceWith ''ns1'' [(''istio.io/rev'', ''canary'')]"

definition ns2 :: Instance where
  "ns2 = namespaceWith ''ns2'' []"

definition ns3 :: Instance where
  "ns3 = namespaceWith ''ns3'' [(''istio-injection'', ''enabled'')]"

definition ns4 :: Instance where
  "ns4 = namespaceWith ''ns4'' [(''istio-injection'', ''enabled'')]"

definition ns5 :: Instance where
  "ns5 = namespaceWith ''ns5'' [(''istio.io/rev'', ''stale'')]"

definition ns6 :: Instance where
  "ns6 = namespaceWith ''ns6'' [(''istio-injection'', ''enabled''), (''istio.io/rev'', ''canary'')]"

definition ns7 :: Instance where
  "ns7 = namespaceWith ''ns7'' [(''istio-injection'', ''disabled'')]"

definition ns8 :: Instance where
  "ns8 = namespaceWith ''ns8'' [(''istio-injection'', [])]"

definition ns9 :: Instance where
  "ns9 = namespaceWith ''ns9'' [(''istio-injection'', []), (''istio.io/rev'', ''canary'')]"

definition exampleContext :: Context where
  "exampleContext =
     \<lparr>Pods = [istiodPod ''canary'', webPod, strayPod, optoutPod, barePod, twicePod],
      Namespaces = [kubeSystem, ns1, ns2, ns3, ns4, ns5, ns6, ns7, ns8, ns9]\<rparr>"

text \<open>
  The locals at the end of the run on the example, and the messages it reports, when the
  one revision is ranged over.
\<close>

definition exampleLocals :: Locals where
  "exampleLocals =
     \<lparr>controlPlaneRevisions = [''canary'' \<mapsto> True],
      injectedNamespaces = [''ns1'' \<mapsto> True, ''ns3'' \<mapsto> True, ''ns4'' \<mapsto> True, ''ns9'' \<mapsto> True],
      reports =
        [(K8SCoreV1Namespaces, NamespaceNotInjected ns2 ''ns2'' ''ns2''),
         (K8SCoreV1Namespaces, NamespaceInvalidInjectorRevision ns5 ''stale'' ''ns5'' ''canary''),
         (K8SCoreV1Namespaces, NamespaceMultipleInjectionLabels ns6 ''ns6'' ''ns6''),
         (K8SCoreV1Namespaces, NamespaceNotInjected ns8 ''ns8'' ''ns8''),
         (K8SCoreV1Pods, PodMissingProxy barePod),
         (K8SCoreV1Pods, PodMissingProxy twicePod)]\<rparr>"

text \<open>
  A snapshot with two revisions of the control plane, and the order in which the first
  pass meets the revisions (the order the spec names for the list of known revisions).
\<close>

definition twoRevisionsContext :: Context where
  "twoRevisionsContext = \<lparr>Pods = [istiodPod ''a'', istiodPod ''b''], Namespaces = [ns5]\<rparr>"

definition discoveryOrder :: "Instance list \<Rightarrow> string list" where
  "discoveryOrder pods = rev (remdups (rev (List.map_filter revisionOf pods)))"

section \<open>The three passes, one resource at a time\<close>

text \<open>
  Each closure changes the locals by an amount that depends on its resource and on the
  maps of the earlier passes only, so each pass appends the effects of its resources in
  the order of the collection. The first pass panics exactly when some resource of the
  pod collection holds no pod; the later passes then never run.
\<close>

lemma gatherRevision_eq:
  "holdsPod r \<Longrightarrow>
   gatherRevision r s =
     Inr (s\<lparr>controlPlaneRevisions := gathered [r] (controlPlaneRevisions s)\<rparr>)"
  by (cases "Message r")
     (auto simp: holdsPod_def gatherRevision_def assertPod_def revisionOf_def gathered_def
           fun_eq_iff split: option.splits)

lemma gathered_Cons: "gathered ps (gathered [p] m) = gathered (p # ps) m"
  by (auto simp: gathered_def fun_eq_iff)

lemma gathered_Nil: "gathered [] m = m"
  by (simp add: gathered_def)

lemma ForEach_gatherRevision:
  "list_all holdsPod pods \<Longrightarrow>
   ForEach gatherRevision pods s =
     Inr (s\<lparr>controlPlaneRevisions := gathered pods (controlPlaneRevisions s)\<rparr>)"
proof (induction pods arbitrary: s)
  case Nil
  show ?case by (simp add: gathered_Nil)
next
  case (Cons p ps)
  then have p: "holdsPod p" and ps: "list_all holdsPod ps" by simp_all
  show ?case
    by (simp add: gatherRevision_eq [OF p] Cons.IH [OF ps] gathered_Cons)
qed

lemma ForEach_gatherRevision_panics:
  "\<not> list_all holdsPod pods \<Longrightarrow> ForEach gatherRevision pods s = Inl InterfaceConversion"
proof (induction pods arbitrary: s)
  case Nil
  then show ?case by simp
next
  case (Cons p ps)
  show ?case
  proof (cases "holdsPod p")
    case True
    with Cons.prems have "\<not> list_all holdsPod ps" by simp
    then show ?thesis by (simp add: gatherRevision_eq [OF True] Cons.IH)
  next
    case False
    then have "gatherRevision p s = Inl InterfaceConversion"
      by (cases "Message p") (simp_all add: holdsPod_def gatherRevision_def assertPod_def)
    then show ?thesis by simp
  qed
qed

lemma resolveNamespace_controlPlaneRevisions:
  "controlPlaneRevisions (resolveNamespace f revs r s) = controlPlaneRevisions s"
  by (simp add: resolveNamespace_def Report_def Let_def)

lemma resolveNamespace_more:
  "Locals.more (resolveNamespace f revs r s) = Locals.more s"
  by (simp add: resolveNamespace_def Report_def Let_def)

lemma resolveNamespace_reports:
  "reports (resolveNamespace f revs r s) =
     reports s @ reports (namespaceEffect f (controlPlaneRevisions s) revs r)"
  by (simp add: resolveNamespace_def namespaceEffect_def initialLocals_def Report_def Let_def)

lemma resolveNamespace_injectedNamespaces:
  "injectedNamespaces (resolveNamespace f revs r s) =
     injectedNamespaces s ++ injectedBy f (controlPlaneRevisions s) revs [r]"
  by (rule ext)
     (simp add: resolveNamespace_def namespaceEffect_def injectedBy_def initialLocals_def
        Report_def Let_def map_add_def)

lemma resolveNamespace_frame:
  "resolveNamespace f revs r s =
     s\<lparr>injectedNamespaces :=
         injectedNamespaces s ++ injectedBy f (controlPlaneRevisions s) revs [r],
       reports := reports s @ reports (namespaceEffect f (controlPlaneRevisions s) revs r)\<rparr>"
  by (rule Locals.equality)
     (simp_all add: resolveNamespace_controlPlaneRevisions resolveNamespace_more
        resolveNamespace_reports resolveNamespace_injectedNamespaces)

lemma injectedBy_Cons:
  "(m ++ injectedBy f cpr revs [r]) ++ injectedBy f cpr revs rs = m ++ injectedBy f cpr revs (r # rs)"
  by (auto simp: injectedBy_def map_add_def fun_eq_iff split: option.splits)

lemma injectedBy_Nil: "m ++ injectedBy f cpr revs [] = m"
  by (simp add: injectedBy_def map_add_def fun_eq_iff)

lemma ForEach_resolveNamespace:
  "ForEach (\<lambda>r s. Inr (resolveNamespace f revs r s)) nss s =
     Inr (s\<lparr>injectedNamespaces :=
              injectedNamespaces s ++ injectedBy f (controlPlaneRevisions s) revs nss,
            reports := reports s @
              concat (map (\<lambda>r. reports (namespaceEffect f (controlPlaneRevisions s) revs r)) nss)\<rparr>)"
proof (induction nss arbitrary: s)
  case Nil
  show ?case by (simp add: injectedBy_Nil)
next
  case (Cons r rs)
  let ?s' = "resolveNamespace f revs r s"
  have "ForEach (\<lambda>r s. Inr (resolveNamespace f revs r s)) (r # rs) s =
        ForEach (\<lambda>r s. Inr (resolveNamespace f revs r s)) rs ?s'"
    by simp
  also have "\<dots> =
     Inr (?s'\<lparr>injectedNamespaces :=
              injectedNamespaces ?s' ++ injectedBy f (controlPlaneRevisions ?s') revs rs,
            reports := reports ?s' @
              concat (map (\<lambda>r. reports (namespaceEffect f (controlPlaneRevisions ?s') revs r)) rs)\<rparr>)"
    by (rule Cons.IH)
  also have "?s'\<lparr>injectedNamespaces :=
              injectedNamespaces ?s' ++ injectedBy f (controlPlaneRevisions ?s') revs rs,
            reports := reports ?s' @
              concat (map (\<lambda>r. reports (namespaceEffect f (controlPlaneRevisions ?s') revs r)) rs)\<rparr> =
     s\<lparr>injectedNamespaces :=
              injectedNamespaces s ++ injectedBy f (controlPlaneRevisions s) revs (r # rs),
            reports := reports s @
              concat (map (\<lambda>r. reports (namespaceEffect f (controlPlaneRevisions s) revs r)) (r # rs))\<rparr>"
    by (rule Locals.equality)
       (simp_all add: resolveNamespace_controlPlaneRevisions resolveNamespace_more
          resolveNamespace_reports resolveNamespace_injectedNamespaces injectedBy_Cons)
  finally show ?case .
qed

lemma checkPod_frame:
  "holdsPod r \<Longrightarrow>
   checkPod r s = Inr (s\<lparr>reports := reports s @ podReports (injectedNamespaces s) r\<rparr>)"
  by (cases "Message r")
     (auto simp: holdsPod_def checkPod_def podReports_def assertPod_def initialLocals_def
        Report_def Let_def)

lemma ForEach_checkPod:
  "list_all holdsPod pods \<Longrightarrow>
   ForEach checkPod pods s =
     Inr (s\<lparr>reports := reports s @ concat (map (podReports (injectedNamespaces s)) pods)\<rparr>)"
proof (induction pods arbitrary: s)
  case Nil
  show ?case by simp
next
  case (Cons p ps)
  then have p: "holdsPod p" and ps: "list_all holdsPod ps" by simp_all
  show ?case
    by (simp add: checkPod_frame [OF p] Cons.IH [OF ps])
qed

lemma Analyze_eq:
  assumes "list_all holdsPod (Pods c)"
  shows "Analyze f revs c =
     Inr \<lparr>controlPlaneRevisions = gathered (Pods c) Map.empty,
          injectedNamespaces = injectedBy f (gathered (Pods c) Map.empty) revs (Namespaces c),
          reports =
            concat (map (\<lambda>r. reports (namespaceEffect f (gathered (Pods c) Map.empty) revs r)) (Namespaces c)) @
            concat (map (podReports (injectedBy f (gathered (Pods c) Map.empty) revs (Namespaces c))) (Pods c))\<rparr>"
  using assms
  by (simp add: Analyze_def ForEach_gatherRevision ForEach_resolveNamespace ForEach_checkPod
        initialLocals_def)

lemma Analyze_panics:
  "\<not> list_all holdsPod (Pods c) \<Longrightarrow> Analyze f revs c = Inl InterfaceConversion"
  by (simp add: Analyze_def ForEach_gatherRevision_panics)

text \<open>
  The messages about one resource: a closure of the second pass reports at most one
  message, on the namespace collection and about its own resource; a closure of the third
  pass reports at most the pod-missing-proxy message about its own pod.
\<close>

lemma reportsAbout_append:
  "reportsAbout col r (xs @ ys) = reportsAbout col r xs @ reportsAbout col r ys"
  by (simp add: reportsAbout_def)

lemma reportsAbout_concat:
  "reportsAbout col r (concat xss) = concat (map (reportsAbout col r) xss)"
  by (induction xss) (simp_all add: reportsAbout_def)

lemma namespaceEffect_reports_cases:
  "reports (namespaceEffect f cpr revs r) = [] \<or>
   (\<exists>d. reports (namespaceEffect f cpr revs r) = [(K8SCoreV1Namespaces, d)] \<and> origin d = r)"
  by (simp add: namespaceEffect_def resolveNamespace_def initialLocals_def Report_def Let_def)

lemma reportsAbout_namespaceEffect:
  "reportsAbout K8SCoreV1Namespaces r (reports (namespaceEffect f cpr revs r')) =
     (if r' = r then reports (namespaceEffect f cpr revs r') else [])"
  using namespaceEffect_reports_cases [of f cpr revs r']
  by (auto simp: reportsAbout_def)

lemma reportsAbout_Pods_namespaceEffect:
  "reportsAbout K8SCoreV1Pods r (reports (namespaceEffect f cpr revs r')) = []"
  using namespaceEffect_reports_cases [of f cpr revs r']
  by (auto simp: reportsAbout_def)

lemma podReports_cases:
  "podReports injected p = [] \<or> podReports injected p = [(K8SCoreV1Pods, PodMissingProxy p)]"
  by (cases "Message p")
     (simp_all add: podReports_def checkPod_def assertPod_def initialLocals_def Report_def Let_def)

lemma reportsAbout_podReports:
  "reportsAbout K8SCoreV1Pods r (podReports injected p) =
     (if p = r then podReports injected p else [])"
  using podReports_cases [of injected p]
  by (auto simp: reportsAbout_def)

lemma reportsAbout_Namespaces_podReports:
  "reportsAbout K8SCoreV1Namespaces r (podReports injected p) = []"
  using podReports_cases [of injected p]
  by (auto simp: reportsAbout_def)

lemma concat_map_only:
  "concat (map (\<lambda>x. if x = r then g x else []) xs) = concat (replicate (count_list xs r) (g r))"
  by (induction xs) simp_all

lemma count_list_distinct: "distinct xs \<Longrightarrow> x \<in> set xs \<Longrightarrow> count_list xs x = 1"
  by (induction xs) auto

lemma injectedNamespaces_namespaceEffect:
  "injectedNamespaces (namespaceEffect f cpr revs r) k \<noteq> None \<Longrightarrow>
     k = FullName (Metadata r) \<and> \<not> f k \<and> injectedNamespaces (namespaceEffect f cpr revs r) k = Some True"
  by (auto simp: namespaceEffect_def resolveNamespace_def initialLocals_def Report_def Let_def
        split: if_splits)

lemma injectedBy_distinct:
  assumes "distinct (map (\<lambda>r. FullName (Metadata r)) nss)" and "r \<in> set nss"
  shows "injectedBy f cpr revs nss (FullName (Metadata r)) =
           injectedNamespaces (namespaceEffect f cpr revs r) (FullName (Metadata r))"
proof -
  have same: "r' = r" if "r' \<in> set nss" and "FullName (Metadata r') = FullName (Metadata r)" for r'
    using that assms by (simp add: distinct_map inj_on_def)
  show ?thesis
  proof (cases "injectedNamespaces (namespaceEffect f cpr revs r) (FullName (Metadata r))")
    case None
    have "\<not> (\<exists>r' \<in> set nss. injectedNamespaces (namespaceEffect f cpr revs r') (FullName (Metadata r)) \<noteq> None)"
    proof
      assume "\<exists>r' \<in> set nss. injectedNamespaces (namespaceEffect f cpr revs r') (FullName (Metadata r)) \<noteq> None"
      then obtain r' where r': "r' \<in> set nss"
        and ne: "injectedNamespaces (namespaceEffect f cpr revs r') (FullName (Metadata r)) \<noteq> None"
        by blast
      from injectedNamespaces_namespaceEffect [OF ne] have "FullName (Metadata r') = FullName (Metadata r)"
        by simp
      with r' have "r' = r" by (rule same)
      with ne None show False by simp
    qed
    with None show ?thesis by (simp add: injectedBy_def)
  next
    case (Some b)
    then have ne: "injectedNamespaces (namespaceEffect f cpr revs r) (FullName (Metadata r)) \<noteq> None"
      by simp
    from injectedNamespaces_namespaceEffect [OF ne] have "b = True" using Some by simp
    moreover from ne assms(2) have
      "\<exists>r' \<in> set nss. injectedNamespaces (namespaceEffect f cpr revs r') (FullName (Metadata r)) \<noteq> None"
      by blast
    ultimately show ?thesis using Some by (simp add: injectedBy_def)
  qed
qed

lemma injectedBy_system:
  assumes "f k"
  shows "injectedBy f cpr revs nss k = None"
proof -
  have "injectedNamespaces (namespaceEffect f cpr revs r) k = None" for r
    using injectedNamespaces_namespaceEffect [of f cpr revs r k] assms by blast
  then show ?thesis by (simp add: injectedBy_def)
qed

lemma injectedBy_values: "injectedBy f cpr revs nss k = None \<or> injectedBy f cpr revs nss k = Some True"
  by (simp add: injectedBy_def)

lemma Analyze_reports_namespace:
  assumes "list_all holdsPod (Pods c)"
  shows "\<exists>s. Analyze f revs c = Inr s \<and>
     controlPlaneRevisions s = gathered (Pods c) Map.empty \<and>
     injectedNamespaces s = injectedBy f (controlPlaneRevisions s) revs (Namespaces c) \<and>
     (\<forall>r. reportsAbout K8SCoreV1Namespaces r (reports s) =
        concat (replicate (count_list (Namespaces c) r)
          (reports (namespaceEffect f (controlPlaneRevisions s) revs r)))) \<and>
     (\<forall>r. reportsAbout K8SCoreV1Pods r (reports s) =
        concat (replicate (count_list (Pods c) r) (podReports (injectedNamespaces s) r)))"
  by (simp add: Analyze_eq [OF assms] reportsAbout_append reportsAbout_concat o_def
        reportsAbout_namespaceEffect reportsAbout_Namespaces_podReports
        reportsAbout_Pods_namespaceEffect reportsAbout_podReports concat_map_only)

lemma Analyze_namespace:
  assumes typed: "list_all holdsPod (Pods c)"
    and dist: "distinct (map (\<lambda>r. FullName (Metadata r)) (Namespaces c))"
    and r: "r \<in> set (Namespaces c)"
  shows "\<exists>s. Analyze f revs c = Inr s \<and>
     reportsAbout K8SCoreV1Namespaces r (reports s) =
       reports (namespaceEffect f (controlPlaneRevisions s) revs r) \<and>
     injectedNamespaces s (FullName (Metadata r)) =
       injectedNamespaces (namespaceEffect f (controlPlaneRevisions s) revs r) (FullName (Metadata r))"
proof -
  from Analyze_reports_namespace [OF typed, of f revs] obtain s where
    run: "Analyze f revs c = Inr s"
    and inj: "injectedNamespaces s = injectedBy f (controlPlaneRevisions s) revs (Namespaces c)"
    and rep: "\<forall>r. reportsAbout K8SCoreV1Namespaces r (reports s) =
        concat (replicate (count_list (Namespaces c) r)
          (reports (namespaceEffect f (controlPlaneRevisions s) revs r)))"
    by blast
  from dist have "distinct (Namespaces c)" by (simp add: distinct_map)
  then have "count_list (Namespaces c) r = 1" using r by (rule count_list_distinct)
  with rep have "reportsAbout K8SCoreV1Namespaces r (reports s) =
       reports (namespaceEffect f (controlPlaneRevisions s) revs r)" by simp
  moreover have "injectedNamespaces s (FullName (Metadata r)) =
       injectedNamespaces (namespaceEffect f (controlPlaneRevisions s) revs r) (FullName (Metadata r))"
    by (simp only: inj injectedBy_distinct [OF dist r])
  ultimately show ?thesis using run by blast
qed

text \<open>The rows of the decision table, as the closure of the second pass takes them.\<close>

lemma effect_not_injected:
  assumes "\<not> f (FullName (Metadata r))"
    and "index (Labels (Metadata r)) InjectionLabelName = []"
    and "Labels (Metadata r) RevisionInjectionLabelName = None"
  shows "reports (namespaceEffect f cpr revs r) =
           [(K8SCoreV1Namespaces,
             NamespaceNotInjected r (FullName (Metadata r)) (FullName (Metadata r)))]"
    and "injectedNamespaces (namespaceEffect f cpr revs r) k = None"
  using assms
  by (simp_all add: namespaceEffect_def resolveNamespace_def initialLocals_def Report_def Let_def)

lemma effect_multiple:
  assumes "\<not> f (FullName (Metadata r))"
    and "index (Labels (Metadata r)) InjectionLabelName \<noteq> []"
    and "Labels (Metadata r) RevisionInjectionLabelName = Some v"
  shows "reports (namespaceEffect f cpr revs r) =
           [(K8SCoreV1Namespaces,
             NamespaceMultipleInjectionLabels r (FullName (Metadata r)) (FullName (Metadata r)))]"
    and "injectedNamespaces (namespaceEffect f cpr revs r) k = None"
  using assms
  by (simp_all add: namespaceEffect_def resolveNamespace_def initialLocals_def Report_def Let_def)

lemma effect_invalid:
  assumes "\<not> f (FullName (Metadata r))"
    and "index (Labels (Metadata r)) InjectionLabelName = []"
    and "Labels (Metadata r) RevisionInjectionLabelName = Some v"
    and "cpr v = None"
  shows "reports (namespaceEffect f cpr revs r) =
           [(K8SCoreV1Namespaces,
             NamespaceInvalidInjectorRevision r v (FullName (Metadata r)) (Join revs '', ''))]"
    and "injectedNamespaces (namespaceEffect f cpr revs r) k = None"
  using assms
  by (simp_all add: namespaceEffect_def resolveNamespace_def initialLocals_def Report_def Let_def)

lemma effect_revision:
  assumes "\<not> f (FullName (Metadata r))"
    and "index (Labels (Metadata r)) InjectionLabelName = []"
    and "Labels (Metadata r) RevisionInjectionLabelName = Some v"
    and "cpr v \<noteq> None"
  shows "reports (namespaceEffect f cpr revs r) = []"
    and "injectedNamespaces (namespaceEffect f cpr revs r) (FullName (Metadata r)) = Some True"
  using assms
  by (simp_all add: namespaceEffect_def resolveNamespace_def initialLocals_def Report_def Let_def)

lemma effect_enabled:
  assumes "\<not> f (FullName (Metadata r))"
    and "index (Labels (Metadata r)) InjectionLabelName = InjectionLabelEnableValue"
    and "Labels (Metadata r) RevisionInjectionLabelName = None"
  shows "reports (namespaceEffect f cpr revs r) = []"
    and "injectedNamespaces (namespaceEffect f cpr revs r) (FullName (Metadata r)) = Some True"
  using assms
  by (simp_all add: namespaceEffect_def resolveNamespace_def initialLocals_def Report_def Let_def
        InjectionLabelEnableValue_def)

lemma effect_disabled:
  assumes "\<not> f (FullName (Metadata r))"
    and "index (Labels (Metadata r)) InjectionLabelName \<noteq> []"
    and "index (Labels (Metadata r)) InjectionLabelName \<noteq> InjectionLabelEnableValue"
    and "Labels (Metadata r) RevisionInjectionLabelName = None"
  shows "reports (namespaceEffect f cpr revs r) = []"
    and "injectedNamespaces (namespaceEffect f cpr revs r) k = None"
  using assms
  by (simp_all add: namespaceEffect_def resolveNamespace_def initialLocals_def Report_def Let_def)

lemma effect_system:
  assumes "f (FullName (Metadata r))"
  shows "reports (namespaceEffect f cpr revs r) = []"
    and "injectedNamespaces (namespaceEffect f cpr revs r) k = None"
  using assms
  by (simp_all add: namespaceEffect_def resolveNamespace_def initialLocals_def Report_def Let_def)

section \<open>The example runs\<close>

text \<open>The runs on the two example snapshots, evaluated, and the facts read off them.\<close>

lemmas example_defs =
  exampleContext_def istiodPod_def webPod_def strayPod_def optoutPod_def barePod_def twicePod_def
  kubeSystem_def ns1_def ns2_def ns3_def ns4_def ns5_def ns6_def ns7_def ns8_def ns9_def
  podWith_def namespaceWith_def appContainer_def proxyContainer_def exampleSystemNamespace_def
  twoRevisionsContext_def

lemmas constant_defs =
  InjectionLabelName_def InjectionLabelEnableValue_def istioProxyName_def RevisionLabel_def
  RevisionInjectionLabelName_def IstioSystemNamespace_def SidecarInjectName_def

lemmas analyzer_defs =
  Analyze_def initialLocals_def gatherRevision_def resolveNamespace_def checkPod_def
  assertPod_def isControlPlane_def index_def indexBool_def Report_def Let_def

lemma EqualFold_False: "EqualFold ''False'' ''false''"
  by code_simp

lemma EqualFold_empty: "\<not> EqualFold [] ''false''"
  by code_simp

lemma exampleContext_typed: "list_all holdsPod (Pods exampleContext)"
  by (simp add: example_defs holdsPod_def)

lemma exampleContext_distinct:
  "distinct (map (\<lambda>r. FullName (Metadata r)) (Namespaces exampleContext))"
  by (simp add: example_defs)

lemma exampleContext_run:
  "Analyze exampleSystemNamespace [''canary''] exampleContext = Inr exampleLocals"
  by (simp add: analyzer_defs example_defs constant_defs exampleLocals_def
        EqualFold_False EqualFold_empty del: EqualFold.simps)

lemma twoRevisionsContext_run_ab:
  "Analyze exampleSystemNamespace [''a'', ''b''] twoRevisionsContext =
     Inr \<lparr>controlPlaneRevisions = [''a'' \<mapsto> True, ''b'' \<mapsto> True],
          injectedNamespaces = Map.empty,
          reports = [(K8SCoreV1Namespaces, NamespaceInvalidInjectorRevision ns5 ''stale'' ''ns5'' ''a, b'')]\<rparr>"
  by (simp add: analyzer_defs example_defs constant_defs)

lemma twoRevisionsContext_run_ba:
  "Analyze exampleSystemNamespace [''b'', ''a''] twoRevisionsContext =
     Inr \<lparr>controlPlaneRevisions = [''a'' \<mapsto> True, ''b'' \<mapsto> True],
          injectedNamespaces = Map.empty,
          reports = [(K8SCoreV1Namespaces, NamespaceInvalidInjectorRevision ns5 ''stale'' ''ns5'' ''b, a'')]\<rparr>"
  by (simp add: analyzer_defs example_defs constant_defs)

lemma twoRevisions_rangeOrder:
  "rangeOrder [''a'' \<mapsto> True, ''b'' \<mapsto> True] [''a'', ''b'']"
  "rangeOrder [''a'' \<mapsto> True, ''b'' \<mapsto> True] [''b'', ''a'']"
  by (auto simp: rangeOrder_def)

lemma twoRevisions_discoveryOrder: "discoveryOrder (Pods twoRevisionsContext) = [''a'', ''b'']"
  by (simp add: discoveryOrder_def revisionOf_def isControlPlane_def index_def
        example_defs constant_defs)

lemma example_names:
  "FullName (Metadata ns2) = ''ns2''" "FullName (Metadata ns5) = ''ns5''"
  "FullName (Metadata ns6) = ''ns6''" "FullName (Metadata ns7) = ''ns7''"
  "FullName (Metadata ns8) = ''ns8''" "FullName (Metadata ns9) = ''ns9''"
  "FullName (Metadata ns1) = ''ns1''" "FullName (Metadata ns3) = ''ns3''"
  "FullName (Metadata kubeSystem) = ''kube-system''"
  by (simp_all add: example_defs)

lemma example_labels:
  "Labels (Metadata ns2) InjectionLabelName = None"
  "Labels (Metadata ns2) RevisionInjectionLabelName = None"
  "Labels (Metadata ns5) InjectionLabelName = None"
  "Labels (Metadata ns5) RevisionInjectionLabelName = Some ''stale''"
  "Labels (Metadata ns6) InjectionLabelName = Some ''enabled''"
  "Labels (Metadata ns6) RevisionInjectionLabelName = Some ''canary''"
  "Labels (Metadata ns7) InjectionLabelName = Some ''disabled''"
  "Labels (Metadata ns7) RevisionInjectionLabelName = None"
  "Labels (Metadata ns8) InjectionLabelName = Some []"
  "Labels (Metadata ns8) RevisionInjectionLabelName = None"
  "Labels (Metadata ns9) InjectionLabelName = Some []"
  "Labels (Metadata ns9) RevisionInjectionLabelName = Some ''canary''"
  by (simp_all add: example_defs constant_defs)

lemma example_members:
  "kubeSystem \<in> set (Namespaces exampleContext)"
  "ns1 \<in> set (Namespaces exampleContext)" "ns2 \<in> set (Namespaces exampleContext)"
  "ns3 \<in> set (Namespaces exampleContext)" "ns4 \<in> set (Namespaces exampleContext)"
  "ns5 \<in> set (Namespaces exampleContext)" "ns6 \<in> set (Namespaces exampleContext)"
  "ns7 \<in> set (Namespaces exampleContext)" "ns8 \<in> set (Namespaces exampleContext)"
  "ns9 \<in> set (Namespaces exampleContext)"
  by (simp_all add: exampleContext_def)

lemma example_user:
  "\<not> exampleSystemNamespace ''ns2''" "\<not> exampleSystemNamespace ''ns5''"
  "\<not> exampleSystemNamespace ''ns6''" "\<not> exampleSystemNamespace ''ns7''"
  "\<not> exampleSystemNamespace ''ns8''" "\<not> exampleSystemNamespace ''ns9''"
  "\<not> exampleSystemNamespace ''ns1''" "\<not> exampleSystemNamespace ''ns3''"
  "exampleSystemNamespace ''kube-system''"
  by (simp_all add: exampleSystemNamespace_def)

lemma example_reportsAbout:
  "reportsAbout K8SCoreV1Namespaces ns9 (reports exampleLocals) = []"
  "reportsAbout K8SCoreV1Namespaces ns8 (reports exampleLocals) =
     [(K8SCoreV1Namespaces, NamespaceNotInjected ns8 ''ns8'' ''ns8'')]"
  by (simp_all add: reportsAbout_def exampleLocals_def example_defs)

lemma exampleLocals_fields:
  "controlPlaneRevisions exampleLocals ''stale'' = None"
  "controlPlaneRevisions exampleLocals ''canary'' = Some True"
  "rangeOrder (controlPlaneRevisions exampleLocals) [''canary'']"
  "injectedNamespaces exampleLocals ''ns9'' = Some True"
  "injectedNamespaces exampleLocals ''ns8'' = None"
  by (simp_all add: exampleLocals_def rangeOrder_def)

section \<open>The claims\<close>

text \<open>
  Every property of a run is stated for a snapshot whose pod collection holds pods
  (\<open>list_all holdsPod\<close>, so that no type assertion panics) and says that the run ends
  with locals \<open>s\<close> of which the property holds. A namespace is a resource of the
  namespace collection; the properties that count its messages are stated for snapshots
  that hold every namespace once, under one full name.
\<close>

subsection \<open>C5\<close>

text \<open>
  C5: for every non-system namespace with neither the legacy enablement label nor the
  revision label set, exactly one namespace-not-injected message is reported about it,
  and its name is absent from the injected set.
\<close>

theorem namespace_not_injected:
  assumes typed: "list_all holdsPod (Pods c)"
    and dist: "distinct (map (\<lambda>r. FullName (Metadata r)) (Namespaces c))"
    and r: "r \<in> set (Namespaces c)"
    and user: "\<not> IsSystemNamespace (FullName (Metadata r))"
    and legacy: "Labels (Metadata r) InjectionLabelName = None"
    and rev: "Labels (Metadata r) RevisionInjectionLabelName = None"
  shows "\<exists>s. Analyze IsSystemNamespace revisions c = Inr s \<and>
     reportsAbout K8SCoreV1Namespaces r (reports s) =
       [(K8SCoreV1Namespaces,
         NamespaceNotInjected r (FullName (Metadata r)) (FullName (Metadata r)))] \<and>
     injectedNamespaces s (FullName (Metadata r)) = None"
proof -
  from legacy have empty: "index (Labels (Metadata r)) InjectionLabelName = []"
    by (simp add: index_def)
  from Analyze_namespace [OF typed dist r, of IsSystemNamespace revisions]
  show ?thesis
    by (simp add: effect_not_injected [where f = IsSystemNamespace and r = r, OF user empty rev])
qed

theorem namespace_not_injected_witness:
  "list_all holdsPod (Pods exampleContext) \<and>
   distinct (map (\<lambda>r. FullName (Metadata r)) (Namespaces exampleContext)) \<and>
   ns2 \<in> set (Namespaces exampleContext) \<and>
   \<not> exampleSystemNamespace ''ns2'' \<and>
   Labels (Metadata ns2) InjectionLabelName = None \<and>
   Labels (Metadata ns2) RevisionInjectionLabelName = None \<and>
   (\<exists>s. Analyze exampleSystemNamespace [''canary''] exampleContext = Inr s \<and>
      reportsAbout K8SCoreV1Namespaces ns2 (reports s) =
        [(K8SCoreV1Namespaces, NamespaceNotInjected ns2 ''ns2'' ''ns2'')] \<and>
      injectedNamespaces s ''ns2'' = None)"
proof -
  have user: "\<not> exampleSystemNamespace (FullName (Metadata ns2))"
    by (simp add: example_names example_user)
  from namespace_not_injected [where IsSystemNamespace = exampleSystemNamespace
      and revisions = "[''canary'']", OF exampleContext_typed exampleContext_distinct
      example_members(3) user example_labels(1) example_labels(2)]
  show ?thesis
    by (simp add: exampleContext_typed exampleContext_distinct example_members example_user
          example_labels example_names)
qed

subsection \<open>C2\<close>

text \<open>
  C2, as amended: for every non-system namespace on which the revision label is set and
  the legacy enablement label is set to a value other than the empty string, whatever the
  two values are otherwise, exactly one namespace-multiple-injection-labels message is
  reported about it and its name is not added to the injected set.
\<close>

theorem namespace_multiple_injection_labels:
  assumes typed: "list_all holdsPod (Pods c)"
    and dist: "distinct (map (\<lambda>r. FullName (Metadata r)) (Namespaces c))"
    and r: "r \<in> set (Namespaces c)"
    and user: "\<not> IsSystemNamespace (FullName (Metadata r))"
    and legacy: "Labels (Metadata r) InjectionLabelName = Some l"
    and nonempty: "l \<noteq> []"
    and rev: "Labels (Metadata r) RevisionInjectionLabelName = Some v"
  shows "\<exists>s. Analyze IsSystemNamespace revisions c = Inr s \<and>
     reportsAbout K8SCoreV1Namespaces r (reports s) =
       [(K8SCoreV1Namespaces,
         NamespaceMultipleInjectionLabels r (FullName (Metadata r)) (FullName (Metadata r)))] \<and>
     injectedNamespaces s (FullName (Metadata r)) = None"
proof -
  from legacy nonempty have ne: "index (Labels (Metadata r)) InjectionLabelName \<noteq> []"
    by (simp add: index_def)
  from Analyze_namespace [OF typed dist r, of IsSystemNamespace revisions]
  show ?thesis
    by (simp add: effect_multiple [where f = IsSystemNamespace and r = r, OF user ne rev])
qed

theorem namespace_multiple_injection_labels_witness:
  "list_all holdsPod (Pods exampleContext) \<and>
   distinct (map (\<lambda>r. FullName (Metadata r)) (Namespaces exampleContext)) \<and>
   ns6 \<in> set (Namespaces exampleContext) \<and>
   \<not> exampleSystemNamespace ''ns6'' \<and>
   Labels (Metadata ns6) InjectionLabelName = Some ''enabled'' \<and>
   ''enabled'' \<noteq> [] \<and>
   Labels (Metadata ns6) RevisionInjectionLabelName = Some ''canary'' \<and>
   (\<exists>s. Analyze exampleSystemNamespace [''canary''] exampleContext = Inr s \<and>
      reportsAbout K8SCoreV1Namespaces ns6 (reports s) =
        [(K8SCoreV1Namespaces, NamespaceMultipleInjectionLabels ns6 ''ns6'' ''ns6'')] \<and>
      injectedNamespaces s ''ns6'' = None)"
proof -
  have user: "\<not> exampleSystemNamespace (FullName (Metadata ns6))"
    by (simp add: example_names example_user)
  have nonempty: "''enabled'' \<noteq> []" by simp
  from namespace_multiple_injection_labels [where IsSystemNamespace = exampleSystemNamespace
      and revisions = "[''canary'']", OF exampleContext_typed exampleContext_distinct
      example_members(7) user example_labels(5) nonempty example_labels(6)]
  show ?thesis
    by (simp add: exampleContext_typed exampleContext_distinct example_members example_user
          example_labels example_names)
qed

text \<open>
  The claim as written fails for a legacy label set to the empty string: namespace
  \<open>ns9\<close> of the example carries both labels, no message is reported about it, and it
  is injected.
\<close>

theorem namespace_multiple_injection_labels_counterexample:
  "Analyze exampleSystemNamespace [''canary''] exampleContext = Inr exampleLocals \<and>
   rangeOrder (controlPlaneRevisions exampleLocals) [''canary''] \<and>
   ns9 \<in> set (Namespaces exampleContext) \<and>
   \<not> exampleSystemNamespace (FullName (Metadata ns9)) \<and>
   Labels (Metadata ns9) InjectionLabelName = Some [] \<and>
   Labels (Metadata ns9) RevisionInjectionLabelName = Some ''canary'' \<and>
   reportsAbout K8SCoreV1Namespaces ns9 (reports exampleLocals) = [] \<and>
   injectedNamespaces exampleLocals (FullName (Metadata ns9)) = Some True"
  by (simp add: exampleContext_run exampleLocals_fields example_members example_names
        example_user example_labels example_reportsAbout)

subsection \<open>C1\<close>

text \<open>
  C1, as amended: for every non-system namespace that has the revision label but not the
  legacy label, and whose revision is not a key of the control-plane revision map,
  exactly one namespace-invalid-injector-revision message is reported about it, carrying
  the requested revision and the known revisions joined by a comma and a space in the
  order in which the loop over the revision map yielded them; its name is not added to
  the injected set. That order is any enumeration of the map's keys (\<open>rangeOrder\<close>),
  not the order of discovery.
\<close>

theorem namespace_invalid_injector_revision:
  assumes typed: "list_all holdsPod (Pods c)"
    and dist: "distinct (map (\<lambda>r. FullName (Metadata r)) (Namespaces c))"
    and r: "r \<in> set (Namespaces c)"
    and user: "\<not> IsSystemNamespace (FullName (Metadata r))"
    and legacy: "Labels (Metadata r) InjectionLabelName = None"
    and rev: "Labels (Metadata r) RevisionInjectionLabelName = Some v"
  shows "\<exists>s. Analyze IsSystemNamespace revisions c = Inr s \<and>
     (controlPlaneRevisions s v = None \<longrightarrow>
        reportsAbout K8SCoreV1Namespaces r (reports s) =
          [(K8SCoreV1Namespaces,
            NamespaceInvalidInjectorRevision r v (FullName (Metadata r)) (Join revisions '', ''))] \<and>
        injectedNamespaces s (FullName (Metadata r)) = None)"
proof -
  from legacy have empty: "index (Labels (Metadata r)) InjectionLabelName = []"
    by (simp add: index_def)
  from Analyze_namespace [OF typed dist r, of IsSystemNamespace revisions] obtain s where
    run: "Analyze IsSystemNamespace revisions c = Inr s"
    and rep: "reportsAbout K8SCoreV1Namespaces r (reports s) =
       reports (namespaceEffect IsSystemNamespace (controlPlaneRevisions s) revisions r)"
    and inj: "injectedNamespaces s (FullName (Metadata r)) =
       injectedNamespaces (namespaceEffect IsSystemNamespace (controlPlaneRevisions s) revisions r)
         (FullName (Metadata r))"
    by blast
  show ?thesis
  proof (intro exI conjI impI)
    show "Analyze IsSystemNamespace revisions c = Inr s" by (rule run)
  next
    assume none: "controlPlaneRevisions s v = None"
    show "reportsAbout K8SCoreV1Namespaces r (reports s) =
          [(K8SCoreV1Namespaces,
            NamespaceInvalidInjectorRevision r v (FullName (Metadata r)) (Join revisions '', ''))]"
      by (simp only: rep effect_invalid(1) [where f = IsSystemNamespace and r = r
            and cpr = "controlPlaneRevisions s", OF user empty rev none])
  next
    assume none: "controlPlaneRevisions s v = None"
    show "injectedNamespaces s (FullName (Metadata r)) = None"
      by (simp only: inj effect_invalid(2) [where f = IsSystemNamespace and r = r
            and cpr = "controlPlaneRevisions s", OF user empty rev none])
  qed
qed

theorem namespace_invalid_injector_revision_witness:
  "list_all holdsPod (Pods exampleContext) \<and>
   distinct (map (\<lambda>r. FullName (Metadata r)) (Namespaces exampleContext)) \<and>
   ns5 \<in> set (Namespaces exampleContext) \<and>
   \<not> exampleSystemNamespace ''ns5'' \<and>
   Labels (Metadata ns5) InjectionLabelName = None \<and>
   Labels (Metadata ns5) RevisionInjectionLabelName = Some ''stale'' \<and>
   (\<exists>s. Analyze exampleSystemNamespace [''canary''] exampleContext = Inr s \<and>
      controlPlaneRevisions s ''stale'' = None \<and>
      reportsAbout K8SCoreV1Namespaces ns5 (reports s) =
        [(K8SCoreV1Namespaces, NamespaceInvalidInjectorRevision ns5 ''stale'' ''ns5'' ''canary'')] \<and>
      injectedNamespaces s ''ns5'' = None)"
proof -
  have user: "\<not> exampleSystemNamespace (FullName (Metadata ns5))"
    by (simp add: example_names example_user)
  from namespace_invalid_injector_revision [where IsSystemNamespace = exampleSystemNamespace
      and revisions = "[''canary'']", OF exampleContext_typed exampleContext_distinct
      example_members(6) user example_labels(3) example_labels(4)]
  show ?thesis
    by (simp add: exampleContext_run exampleLocals_fields exampleContext_typed
          exampleContext_distinct example_members example_user example_labels example_names)
qed

text \<open>
  The claim as written fails on the order: the first pass meets revision \<open>a\<close> before
  \<open>b\<close>, and a run whose loop over the map yields \<open>b\<close> first reports the known
  revisions as \<open>b, a\<close>.
\<close>

theorem namespace_invalid_injector_revision_counterexample:
  "ns5 \<in> set (Namespaces twoRevisionsContext) \<and>
   \<not> exampleSystemNamespace (FullName (Metadata ns5)) \<and>
   Labels (Metadata ns5) InjectionLabelName = None \<and>
   Labels (Metadata ns5) RevisionInjectionLabelName = Some ''stale'' \<and>
   Analyze exampleSystemNamespace [''b'', ''a''] twoRevisionsContext =
     Inr \<lparr>controlPlaneRevisions = [''a'' \<mapsto> True, ''b'' \<mapsto> True],
          injectedNamespaces = Map.empty,
          reports =
            [(K8SCoreV1Namespaces,
              NamespaceInvalidInjectorRevision ns5 ''stale'' ''ns5'' ''b, a'')]\<rparr> \<and>
   rangeOrder [''a'' \<mapsto> True, ''b'' \<mapsto> True] [''b'', ''a''] \<and>
   discoveryOrder (Pods twoRevisionsContext) = [''a'', ''b''] \<and>
   Join (discoveryOrder (Pods twoRevisionsContext)) '', '' = ''a, b'' \<and>
   ''b, a'' \<noteq> ''a, b''"
proof -
  have "ns5 \<in> set (Namespaces twoRevisionsContext)"
    by (simp add: twoRevisionsContext_def)
  then show ?thesis
    by (simp add: twoRevisionsContext_run_ba twoRevisions_rangeOrder twoRevisions_discoveryOrder
          example_names example_user example_labels)
qed

subsection \<open>C6\<close>

text \<open>
  C6, as amended: for every non-system namespace where the revision label is absent and
  the legacy enablement label is present with a value that is neither \<open>enabled\<close> nor
  the empty string, no message is reported about it and its name is not added to the
  injected set.
\<close>

theorem namespace_opted_out:
  assumes typed: "list_all holdsPod (Pods c)"
    and dist: "distinct (map (\<lambda>r. FullName (Metadata r)) (Namespaces c))"
    and r: "r \<in> set (Namespaces c)"
    and user: "\<not> IsSystemNamespace (FullName (Metadata r))"
    and legacy: "Labels (Metadata r) InjectionLabelName = Some l"
    and other: "l \<noteq> InjectionLabelEnableValue"
    and nonempty: "l \<noteq> []"
    and rev: "Labels (Metadata r) RevisionInjectionLabelName = None"
  shows "\<exists>s. Analyze IsSystemNamespace revisions c = Inr s \<and>
     reportsAbout K8SCoreV1Namespaces r (reports s) = [] \<and>
     injectedNamespaces s (FullName (Metadata r)) = None"
proof -
  from legacy nonempty have ne: "index (Labels (Metadata r)) InjectionLabelName \<noteq> []"
    by (simp add: index_def)
  from legacy other have
    off: "index (Labels (Metadata r)) InjectionLabelName \<noteq> InjectionLabelEnableValue"
    by (simp add: index_def)
  from Analyze_namespace [OF typed dist r, of IsSystemNamespace revisions]
  show ?thesis
    by (simp add: effect_disabled [where f = IsSystemNamespace and r = r, OF user ne off rev])
qed

theorem namespace_opted_out_witness:
  "list_all holdsPod (Pods exampleContext) \<and>
   distinct (map (\<lambda>r. FullName (Metadata r)) (Namespaces exampleContext)) \<and>
   ns7 \<in> set (Namespaces exampleContext) \<and>
   \<not> exampleSystemNamespace ''ns7'' \<and>
   Labels (Metadata ns7) InjectionLabelName = Some ''disabled'' \<and>
   ''disabled'' \<noteq> InjectionLabelEnableValue \<and>
   ''disabled'' \<noteq> [] \<and>
   Labels (Metadata ns7) RevisionInjectionLabelName = None \<and>
   (\<exists>s. Analyze exampleSystemNamespace [''canary''] exampleContext = Inr s \<and>
      reportsAbout K8SCoreV1Namespaces ns7 (reports s) = [] \<and>
      injectedNamespaces s ''ns7'' = None)"
proof -
  have user: "\<not> exampleSystemNamespace (FullName (Metadata ns7))"
    by (simp add: example_names example_user)
  have other: "''disabled'' \<noteq> InjectionLabelEnableValue"
    by (simp add: InjectionLabelEnableValue_def)
  have nonempty: "''disabled'' \<noteq> []" by simp
  from namespace_opted_out [where IsSystemNamespace = exampleSystemNamespace
      and revisions = "[''canary'']", OF exampleContext_typed exampleContext_distinct
      example_members(8) user example_labels(7) other nonempty example_labels(8)]
  show ?thesis
    by (simp add: exampleContext_typed exampleContext_distinct example_members example_user
          example_labels example_names other)
qed

text \<open>
  The claim as written fails for a legacy label set to the empty string, a value
  different from \<open>enabled\<close>: namespace \<open>ns8\<close> of the example gets the
  namespace-not-injected message.
\<close>

theorem namespace_opted_out_counterexample:
  "Analyze exampleSystemNamespace [''canary''] exampleContext = Inr exampleLocals \<and>
   rangeOrder (controlPlaneRevisions exampleLocals) [''canary''] \<and>
   ns8 \<in> set (Namespaces exampleContext) \<and>
   \<not> exampleSystemNamespace (FullName (Metadata ns8)) \<and>
   Labels (Metadata ns8) InjectionLabelName = Some [] \<and>
   [] \<noteq> InjectionLabelEnableValue \<and>
   Labels (Metadata ns8) RevisionInjectionLabelName = None \<and>
   reportsAbout K8SCoreV1Namespaces ns8 (reports exampleLocals) =
     [(K8SCoreV1Namespaces, NamespaceNotInjected ns8 ''ns8'' ''ns8'')]"
  by (simp add: exampleContext_run exampleLocals_fields example_members example_names
        example_user example_labels example_reportsAbout InjectionLabelEnableValue_def)

subsection \<open>C7\<close>

text \<open>
  C7: a namespace whose legacy enablement label is set to the empty string is handled as
  if the label were absent. With no revision label it gets the namespace-not-injected
  message. With a revision label it gets no namespace-multiple-injection-labels message:
  the revision is checked, so that an unknown revision gets the
  namespace-invalid-injector-revision message and a known one makes the namespace
  injected, without a message.
\<close>

theorem empty_legacy_label_as_absent:
  assumes typed: "list_all holdsPod (Pods c)"
    and dist: "distinct (map (\<lambda>r. FullName (Metadata r)) (Namespaces c))"
    and r: "r \<in> set (Namespaces c)"
    and user: "\<not> IsSystemNamespace (FullName (Metadata r))"
    and legacy: "Labels (Metadata r) InjectionLabelName = Some []"
  shows "\<exists>s. Analyze IsSystemNamespace revisions c = Inr s \<and>
     reportsAbout K8SCoreV1Namespaces r (reports s) =
       (case Labels (Metadata r) RevisionInjectionLabelName of
          None \<Rightarrow>
            [(K8SCoreV1Namespaces,
              NamespaceNotInjected r (FullName (Metadata r)) (FullName (Metadata r)))]
        | Some v \<Rightarrow>
            if controlPlaneRevisions s v = None then
              [(K8SCoreV1Namespaces,
                NamespaceInvalidInjectorRevision r v (FullName (Metadata r))
                  (Join revisions '', ''))]
            else []) \<and>
     injectedNamespaces s (FullName (Metadata r)) =
       (case Labels (Metadata r) RevisionInjectionLabelName of
          None \<Rightarrow> None
        | Some v \<Rightarrow> if controlPlaneRevisions s v = None then None else Some True)"
proof -
  from legacy have empty: "index (Labels (Metadata r)) InjectionLabelName = []"
    by (simp add: index_def)
  from Analyze_namespace [OF typed dist r, of IsSystemNamespace revisions] obtain s where
    run: "Analyze IsSystemNamespace revisions c = Inr s"
    and rep: "reportsAbout K8SCoreV1Namespaces r (reports s) =
       reports (namespaceEffect IsSystemNamespace (controlPlaneRevisions s) revisions r)"
    and inj: "injectedNamespaces s (FullName (Metadata r)) =
       injectedNamespaces (namespaceEffect IsSystemNamespace (controlPlaneRevisions s) revisions r)
         (FullName (Metadata r))"
    by blast
  show ?thesis
  proof (cases "Labels (Metadata r) RevisionInjectionLabelName")
    case None
    with run rep inj show ?thesis
      by (simp add: effect_not_injected [where f = IsSystemNamespace and r = r, OF user empty None])
  next
    case (Some v)
    show ?thesis
    proof (cases "controlPlaneRevisions s v = None")
      case True
      with run rep inj Some show ?thesis
        by (simp add: effect_invalid [where f = IsSystemNamespace and r = r
              and cpr = "controlPlaneRevisions s", OF user empty Some True])
    next
      case False
      with run rep inj Some show ?thesis
        by (simp add: effect_revision [where f = IsSystemNamespace and r = r
              and cpr = "controlPlaneRevisions s", OF user empty Some False])
    qed
  qed
qed

theorem empty_legacy_label_as_absent_witness:
  "list_all holdsPod (Pods exampleContext) \<and>
   distinct (map (\<lambda>r. FullName (Metadata r)) (Namespaces exampleContext)) \<and>
   ns8 \<in> set (Namespaces exampleContext) \<and> ns9 \<in> set (Namespaces exampleContext) \<and>
   \<not> exampleSystemNamespace ''ns8'' \<and> \<not> exampleSystemNamespace ''ns9'' \<and>
   Labels (Metadata ns8) InjectionLabelName = Some [] \<and>
   Labels (Metadata ns9) InjectionLabelName = Some [] \<and>
   Labels (Metadata ns8) RevisionInjectionLabelName = None \<and>
   Labels (Metadata ns9) RevisionInjectionLabelName = Some ''canary'' \<and>
   (\<exists>s. Analyze exampleSystemNamespace [''canary''] exampleContext = Inr s \<and>
      controlPlaneRevisions s ''canary'' = Some True \<and>
      reportsAbout K8SCoreV1Namespaces ns8 (reports s) =
        [(K8SCoreV1Namespaces, NamespaceNotInjected ns8 ''ns8'' ''ns8'')] \<and>
      injectedNamespaces s ''ns8'' = None \<and>
      reportsAbout K8SCoreV1Namespaces ns9 (reports s) = [] \<and>
      injectedNamespaces s ''ns9'' = Some True)"
proof -
  have user8: "\<not> exampleSystemNamespace (FullName (Metadata ns8))"
    and user9: "\<not> exampleSystemNamespace (FullName (Metadata ns9))"
    by (simp_all add: example_names example_user)
  from empty_legacy_label_as_absent [where IsSystemNamespace = exampleSystemNamespace
      and revisions = "[''canary'']", OF exampleContext_typed exampleContext_distinct
      example_members(9) user8 example_labels(9)]
    empty_legacy_label_as_absent [where IsSystemNamespace = exampleSystemNamespace
      and revisions = "[''canary'']", OF exampleContext_typed exampleContext_distinct
      example_members(10) user9 example_labels(11)]
  show ?thesis
    by (simp add: exampleContext_run exampleLocals_fields exampleContext_typed
          exampleContext_distinct example_members example_user example_labels example_names)
qed

subsection \<open>C9\<close>

text \<open>
  C9: about a namespace that satisfies the system-namespace predicate no message is ever
  reported on the namespace collection, and its name is never added to the injected set,
  whatever its labels are.
\<close>

theorem system_namespace_skipped:
  assumes typed: "list_all holdsPod (Pods c)"
    and system: "IsSystemNamespace (FullName (Metadata r))"
  shows "\<exists>s. Analyze IsSystemNamespace revisions c = Inr s \<and>
     reportsAbout K8SCoreV1Namespaces r (reports s) = [] \<and>
     injectedNamespaces s (FullName (Metadata r)) = None"
proof -
  from Analyze_reports_namespace [OF typed, of IsSystemNamespace revisions] obtain s where
    run: "Analyze IsSystemNamespace revisions c = Inr s"
    and inj: "injectedNamespaces s =
       injectedBy IsSystemNamespace (controlPlaneRevisions s) revisions (Namespaces c)"
    and rep: "\<forall>r. reportsAbout K8SCoreV1Namespaces r (reports s) =
        concat (replicate (count_list (Namespaces c) r)
          (reports (namespaceEffect IsSystemNamespace (controlPlaneRevisions s) revisions r)))"
    by blast
  have "reportsAbout K8SCoreV1Namespaces r (reports s) = []"
    by (simp add: rep effect_system(1) [where f = IsSystemNamespace and r = r, OF system])
  moreover have "injectedNamespaces s (FullName (Metadata r)) = None"
    by (simp only: inj injectedBy_system [where f = IsSystemNamespace, OF system])
  ultimately show ?thesis using run by blast
qed

theorem system_namespace_skipped_witness:
  "list_all holdsPod (Pods exampleContext) \<and>
   exampleSystemNamespace ''kube-system'' \<and>
   kubeSystem \<in> set (Namespaces exampleContext) \<and>
   Labels (Metadata kubeSystem) RevisionInjectionLabelName = Some ''stale'' \<and>
   (\<exists>s. Analyze exampleSystemNamespace [''canary''] exampleContext = Inr s \<and>
      reportsAbout K8SCoreV1Namespaces kubeSystem (reports s) = [] \<and>
      injectedNamespaces s ''kube-system'' = None)"
proof -
  have system: "exampleSystemNamespace (FullName (Metadata kubeSystem))"
    by (simp add: example_names example_user)
  have label: "Labels (Metadata kubeSystem) RevisionInjectionLabelName = Some ''stale''"
    by (simp add: example_defs constant_defs)
  from system_namespace_skipped [where IsSystemNamespace = exampleSystemNamespace
      and revisions = "[''canary'']", OF exampleContext_typed system]
  show ?thesis
    by (simp add: exampleContext_typed example_members example_user example_names label)
qed

subsection \<open>C4\<close>

lemma isControlPlane_iff:
  "isControlPlane pod \<longleftrightarrow>
     GetNamespace pod = IstioSystemNamespace \<and> GetLabels pod ''app'' = Some ''istiod''"
  by (simp add: isControlPlane_def index_def Let_def split: option.splits)

lemma revisionOf_iff:
  "revisionOf r = Some v \<longleftrightarrow>
     (\<exists>pod. Message r = PodMessage pod \<and> GetNamespace pod = IstioSystemNamespace \<and>
        GetLabels pod ''app'' = Some ''istiod'' \<and> Labels (Metadata r) RevisionLabel = Some v)"
  by (cases "Message r") (auto simp: revisionOf_def isControlPlane_iff)

lemma gathered_iff:
  "gathered pods Map.empty v =
     (if \<exists>r \<in> set pods. \<exists>pod. Message r = PodMessage pod \<and>
            GetNamespace pod = IstioSystemNamespace \<and>
            GetLabels pod ''app'' = Some ''istiod'' \<and>
            Labels (Metadata r) RevisionLabel = Some v
      then Some True else None)"
proof -
  have "Some v \<in> revisionOf ` set pods \<longleftrightarrow> (\<exists>r \<in> set pods. revisionOf r = Some v)"
    by (force simp: image_iff)
  then show ?thesis
    by (simp add: gathered_def revisionOf_iff)
qed

text \<open>
  C4: the revision map that the first pass produces holds exactly the values of the
  revision label of the pods whose namespace is the mesh system namespace and whose label
  \<open>app\<close> is \<open>istiod\<close>; a control-plane pod without the label adds nothing, a pod
  that is not of the control plane adds nothing, and an empty pod collection yields the
  empty map. The later passes leave the map as it is.
\<close>

theorem controlPlaneRevisions_gathered:
  assumes typed: "list_all holdsPod (Pods c)"
  shows "\<exists>s1 s. ForEach gatherRevision (Pods c) initialLocals = Inr s1 \<and>
     Analyze IsSystemNamespace revisions c = Inr s \<and>
     controlPlaneRevisions s = controlPlaneRevisions s1 \<and>
     (\<forall>v. controlPlaneRevisions s1 v =
        (if \<exists>r \<in> set (Pods c). \<exists>pod. Message r = PodMessage pod \<and>
              GetNamespace pod = IstioSystemNamespace \<and>
              GetLabels pod ''app'' = Some ''istiod'' \<and>
              Labels (Metadata r) RevisionLabel = Some v
         then Some True else None)) \<and>
     (Pods c = [] \<longrightarrow> controlPlaneRevisions s1 = Map.empty)"
proof -
  let ?s1 = "initialLocals\<lparr>controlPlaneRevisions :=
               gathered (Pods c) (controlPlaneRevisions initialLocals)\<rparr>"
  have init: "controlPlaneRevisions initialLocals = Map.empty"
    by (simp add: initialLocals_def)
  have pass1: "ForEach gatherRevision (Pods c) initialLocals = Inr ?s1"
    by (rule ForEach_gatherRevision [OF typed])
  have cpr1: "controlPlaneRevisions ?s1 = gathered (Pods c) Map.empty"
    by (simp add: init)
  from Analyze_reports_namespace [OF typed, of IsSystemNamespace revisions] obtain s where
    run: "Analyze IsSystemNamespace revisions c = Inr s"
    and cpr: "controlPlaneRevisions s = gathered (Pods c) Map.empty"
    by blast
  have empty: "Pods c = [] \<longrightarrow> controlPlaneRevisions ?s1 = Map.empty"
    by (simp add: init gathered_Nil)
  have "\<forall>v. controlPlaneRevisions ?s1 v =
        (if \<exists>r \<in> set (Pods c). \<exists>pod. Message r = PodMessage pod \<and>
              GetNamespace pod = IstioSystemNamespace \<and>
              GetLabels pod ''app'' = Some ''istiod'' \<and>
              Labels (Metadata r) RevisionLabel = Some v
         then Some True else None)"
    by (simp only: cpr1 gathered_iff) simp
  with pass1 run cpr cpr1 empty show ?thesis
    by (intro exI [of _ ?s1] exI [of _ s]) (simp only: simp_thms)
qed

theorem controlPlaneRevisions_gathered_witness:
  "list_all holdsPod (Pods exampleContext) \<and>
   (\<exists>s1 s. ForEach gatherRevision (Pods exampleContext) initialLocals = Inr s1 \<and>
      Analyze exampleSystemNamespace [''canary''] exampleContext = Inr s \<and>
      controlPlaneRevisions s = controlPlaneRevisions s1 \<and>
      controlPlaneRevisions s1 ''canary'' = Some True \<and>
      controlPlaneRevisions s1 ''stale'' = None) \<and>
   (\<exists>s1. ForEach gatherRevision [] initialLocals = Inr s1 \<and>
      controlPlaneRevisions s1 = Map.empty)"
proof -
  from controlPlaneRevisions_gathered [where IsSystemNamespace = exampleSystemNamespace
      and revisions = "[''canary'']", OF exampleContext_typed]
  obtain s1 s where pass1: "ForEach gatherRevision (Pods exampleContext) initialLocals = Inr s1"
    and run: "Analyze exampleSystemNamespace [''canary''] exampleContext = Inr s"
    and same: "controlPlaneRevisions s = controlPlaneRevisions s1"
    and keys: "\<forall>v. controlPlaneRevisions s1 v =
        (if \<exists>r \<in> set (Pods exampleContext). \<exists>pod. Message r = PodMessage pod \<and>
              GetNamespace pod = IstioSystemNamespace \<and>
              GetLabels pod ''app'' = Some ''istiod'' \<and>
              Labels (Metadata r) RevisionLabel = Some v
         then Some True else None)"
    by blast
  have canary: "controlPlaneRevisions s1 ''canary'' = Some True"
    by (simp add: keys example_defs constant_defs)
  have stale: "controlPlaneRevisions s1 ''stale'' = None"
    by (simp add: keys example_defs constant_defs)
  have none: "list_all holdsPod (Pods \<lparr>Pods = [], Namespaces = []\<rparr>)"
    by simp
  from controlPlaneRevisions_gathered [where IsSystemNamespace = exampleSystemNamespace
      and revisions = "[]", OF none]
  have empty: "\<exists>s1. ForEach gatherRevision [] initialLocals = Inr s1 \<and>
      controlPlaneRevisions s1 = Map.empty"
    by auto
  from pass1 run same canary stale empty exampleContext_typed show ?thesis
    by blast
qed

subsection \<open>C3\<close>

lemma proxyImageLoop_find:
  "proxyImageLoop cs acc =
     (case find (\<lambda>c. container_Name c = istioProxyName) cs of
        None \<Rightarrow> acc | Some c \<Rightarrow> container_Image c)"
  by (induction cs) simp_all

lemma podReports_PodMessage:
  assumes "Message r = PodMessage pod"
  shows "podReports injected r =
     (if indexBool injected (GetNamespace pod) \<and>
         \<not> EqualFold (index (GetAnnotations pod) SidecarInjectName) ''false'' \<and>
         (case find (\<lambda>c. container_Name c = istioProxyName) (Containers pod) of
            None \<Rightarrow> True | Some c \<Rightarrow> container_Image c = [])
      then [(K8SCoreV1Pods, PodMissingProxy r)] else [])"
  using assms
  by (simp add: podReports_def checkPod_def assertPod_def initialLocals_def Report_def Let_def
        proxyImageLoop_find split: option.splits del: EqualFold.simps)

lemma indexBool_injectedBy:
  "indexBool (injectedBy f cpr revs nss) k \<longleftrightarrow> k \<in> dom (injectedBy f cpr revs nss)"
  using injectedBy_values [of f cpr revs nss k]
  by (auto simp: indexBool_def)

lemma concat_replicate_empty: "concat (replicate n xs) = [] \<longleftrightarrow> n = 0 \<or> xs = []"
  by (induction n) auto

lemma set_concat_replicate: "set (concat (replicate n xs)) \<subseteq> set xs"
  by (induction n) auto

lemma count_list_member: "x \<in> set xs \<Longrightarrow> count_list xs x \<noteq> 0"
  by (induction xs) auto

text \<open>
  Where no two containers of a pod share a name, the first container named
  \<open>istio-proxy\<close> is the only one, and the condition is the claim's.
\<close>

lemma first_proxy_distinct:
  assumes "distinct (map container_Name cs)"
  shows "(case find (\<lambda>c. container_Name c = istioProxyName) cs of
            None \<Rightarrow> True | Some c \<Rightarrow> container_Image c = []) \<longleftrightarrow>
         \<not> (\<exists>c \<in> set cs. container_Name c = istioProxyName \<and> container_Image c \<noteq> [])"
  using assms by (induction cs) (auto simp: image_iff)

text \<open>
  C3, as amended: a pod-missing-proxy message is reported about a pod if and only if the
  pod's namespace is in the injected set, its sidecar-inject annotation does not equal
  \<open>false\<close> under case folding, and the first container named \<open>istio-proxy\<close> in its
  container list is missing or has an empty image. So a pod whose namespace is not in the
  injected set, or whose annotation folds to \<open>false\<close>, gets no message; and no other
  message of the pod collection is about the pod.
\<close>

theorem pod_missing_proxy:
  assumes typed: "list_all holdsPod (Pods c)"
    and r: "r \<in> set (Pods c)"
    and pod: "Message r = PodMessage pod"
  shows "\<exists>s. Analyze IsSystemNamespace revisions c = Inr s \<and>
     (reportsAbout K8SCoreV1Pods r (reports s) \<noteq> [] \<longleftrightarrow>
        GetNamespace pod \<in> dom (injectedNamespaces s) \<and>
        \<not> EqualFold (index (GetAnnotations pod) SidecarInjectName) ''false'' \<and>
        (case find (\<lambda>c. container_Name c = istioProxyName) (Containers pod) of
           None \<Rightarrow> True | Some c \<Rightarrow> container_Image c = [])) \<and>
     set (reportsAbout K8SCoreV1Pods r (reports s)) \<subseteq> {(K8SCoreV1Pods, PodMissingProxy r)}"
proof -
  from Analyze_reports_namespace [OF typed, of IsSystemNamespace revisions] obtain s where
    run: "Analyze IsSystemNamespace revisions c = Inr s"
    and inj: "injectedNamespaces s =
       injectedBy IsSystemNamespace (controlPlaneRevisions s) revisions (Namespaces c)"
    and rep: "\<forall>r. reportsAbout K8SCoreV1Pods r (reports s) =
        concat (replicate (count_list (Pods c) r) (podReports (injectedNamespaces s) r))"
    by blast
  from r have count: "count_list (Pods c) r \<noteq> 0" by (rule count_list_member)
  have member: "indexBool (injectedNamespaces s) (GetNamespace pod) \<longleftrightarrow>
      GetNamespace pod \<in> dom (injectedNamespaces s)"
    by (simp only: inj indexBool_injectedBy)
  have about: "reportsAbout K8SCoreV1Pods r (reports s) =
      concat (replicate (count_list (Pods c) r) (podReports (injectedNamespaces s) r))"
    using rep by blast
  have "reportsAbout K8SCoreV1Pods r (reports s) \<noteq> [] \<longleftrightarrow>
      podReports (injectedNamespaces s) r \<noteq> []"
    by (simp only: about concat_replicate_empty) (simp add: count)
  also have "\<dots> \<longleftrightarrow>
        GetNamespace pod \<in> dom (injectedNamespaces s) \<and>
        \<not> EqualFold (index (GetAnnotations pod) SidecarInjectName) ''false'' \<and>
        (case find (\<lambda>c. container_Name c = istioProxyName) (Containers pod) of
           None \<Rightarrow> True | Some c \<Rightarrow> container_Image c = [])"
    by (simp only: podReports_PodMessage [OF pod] member [symmetric]) simp
  finally have iff: "reportsAbout K8SCoreV1Pods r (reports s) \<noteq> [] \<longleftrightarrow>
        GetNamespace pod \<in> dom (injectedNamespaces s) \<and>
        \<not> EqualFold (index (GetAnnotations pod) SidecarInjectName) ''false'' \<and>
        (case find (\<lambda>c. container_Name c = istioProxyName) (Containers pod) of
           None \<Rightarrow> True | Some c \<Rightarrow> container_Image c = [])" .
  have "set (reportsAbout K8SCoreV1Pods r (reports s)) \<subseteq> set (podReports (injectedNamespaces s) r)"
    by (simp only: about set_concat_replicate)
  also have "\<dots> \<subseteq> {(K8SCoreV1Pods, PodMissingProxy r)}"
    using podReports_cases [of "injectedNamespaces s" r] by auto
  finally have only: "set (reportsAbout K8SCoreV1Pods r (reports s)) \<subseteq>
      {(K8SCoreV1Pods, PodMissingProxy r)}" .
  from run iff only show ?thesis by blast
qed

lemma example_pods:
  "Message barePod = PodMessage
     \<lparr>GetNamespace = ''ns4'', GetLabels = Map.empty, GetAnnotations = Map.empty,
      Containers = [appContainer]\<rparr>"
  "Message optoutPod = PodMessage
     \<lparr>GetNamespace = ''ns3'', GetLabels = Map.empty,
      GetAnnotations = [''sidecar.istio.io/inject'' \<mapsto> ''False''],
      Containers = [appContainer]\<rparr>"
  "Message strayPod = PodMessage
     \<lparr>GetNamespace = ''ns2'', GetLabels = Map.empty, GetAnnotations = Map.empty,
      Containers = [appContainer]\<rparr>"
  "Message webPod = PodMessage
     \<lparr>GetNamespace = ''ns1'', GetLabels = Map.empty, GetAnnotations = Map.empty,
      Containers = [appContainer, proxyContainer ''proxyv2'']\<rparr>"
  "Message twicePod = PodMessage
     \<lparr>GetNamespace = ''ns4'', GetLabels = Map.empty, GetAnnotations = Map.empty,
      Containers = [proxyContainer [], proxyContainer ''proxyv2'']\<rparr>"
  by (simp_all add: barePod_def optoutPod_def strayPod_def webPod_def twicePod_def podWith_def)

lemma example_pod_members:
  "barePod \<in> set (Pods exampleContext)" "optoutPod \<in> set (Pods exampleContext)"
  "strayPod \<in> set (Pods exampleContext)" "webPod \<in> set (Pods exampleContext)"
  "twicePod \<in> set (Pods exampleContext)"
  by (simp_all add: exampleContext_def)

lemma example_injected:
  "''ns1'' \<in> dom (injectedNamespaces exampleLocals)"
  "''ns2'' \<notin> dom (injectedNamespaces exampleLocals)"
  "''ns3'' \<in> dom (injectedNamespaces exampleLocals)"
  "''ns4'' \<in> dom (injectedNamespaces exampleLocals)"
  by (simp_all add: exampleLocals_def)

lemma example_annotations:
  "index Map.empty SidecarInjectName = []"
  "index [''sidecar.istio.io/inject'' \<mapsto> ''False''] SidecarInjectName = ''False''"
  by (simp_all add: index_def SidecarInjectName_def)

lemma example_containers:
  "find (\<lambda>c. container_Name c = istioProxyName) [appContainer] = None"
  "find (\<lambda>c. container_Name c = istioProxyName) [appContainer, proxyContainer ''proxyv2''] =
     Some (proxyContainer ''proxyv2'')"
  "container_Name (proxyContainer ''proxyv2'') = istioProxyName"
  "container_Image (proxyContainer ''proxyv2'') \<noteq> []"
  by (simp_all add: appContainer_def proxyContainer_def istioProxyName_def)

theorem pod_missing_proxy_witness:
  "list_all holdsPod (Pods exampleContext) \<and>
   barePod \<in> set (Pods exampleContext) \<and> optoutPod \<in> set (Pods exampleContext) \<and>
   strayPod \<in> set (Pods exampleContext) \<and> webPod \<in> set (Pods exampleContext) \<and>
   (\<exists>s. Analyze exampleSystemNamespace [''canary''] exampleContext = Inr s \<and>
      reportsAbout K8SCoreV1Pods barePod (reports s) \<noteq> [] \<and>
      set (reportsAbout K8SCoreV1Pods barePod (reports s)) \<subseteq>
        {(K8SCoreV1Pods, PodMissingProxy barePod)} \<and>
      reportsAbout K8SCoreV1Pods optoutPod (reports s) = [] \<and>
      reportsAbout K8SCoreV1Pods strayPod (reports s) = [] \<and>
      reportsAbout K8SCoreV1Pods webPod (reports s) = [])"
proof -
  note run = exampleContext_run
  from pod_missing_proxy [where IsSystemNamespace = exampleSystemNamespace
      and revisions = "[''canary'']", OF exampleContext_typed example_pod_members(1) example_pods(1)]
  have bare: "reportsAbout K8SCoreV1Pods barePod (reports exampleLocals) \<noteq> [] \<and>
      set (reportsAbout K8SCoreV1Pods barePod (reports exampleLocals)) \<subseteq>
        {(K8SCoreV1Pods, PodMissingProxy barePod)}"
    by (simp add: run example_injected example_annotations appContainer_def proxyContainer_def
          istioProxyName_def EqualFold_empty
          del: EqualFold.simps)
  from pod_missing_proxy [where IsSystemNamespace = exampleSystemNamespace
      and revisions = "[''canary'']", OF exampleContext_typed example_pod_members(2) example_pods(2)]
  have optout: "reportsAbout K8SCoreV1Pods optoutPod (reports exampleLocals) = []"
    by (simp add: run example_injected example_annotations appContainer_def proxyContainer_def
          istioProxyName_def EqualFold_False
          del: EqualFold.simps)
  from pod_missing_proxy [where IsSystemNamespace = exampleSystemNamespace
      and revisions = "[''canary'']", OF exampleContext_typed example_pod_members(3) example_pods(3)]
  have stray: "reportsAbout K8SCoreV1Pods strayPod (reports exampleLocals) = []"
    by (simp add: run example_injected example_annotations appContainer_def proxyContainer_def
          istioProxyName_def EqualFold_empty
          del: EqualFold.simps)
  from pod_missing_proxy [where IsSystemNamespace = exampleSystemNamespace
      and revisions = "[''canary'']", OF exampleContext_typed example_pod_members(4) example_pods(4)]
  have web: "reportsAbout K8SCoreV1Pods webPod (reports exampleLocals) = []"
    by (simp add: run example_injected example_annotations appContainer_def proxyContainer_def
          istioProxyName_def EqualFold_empty
          del: EqualFold.simps)
  from bare optout stray web show ?thesis
    by (simp add: run exampleContext_typed example_pod_members)
qed

text \<open>
  The claim as written fails for a pod with two containers named \<open>istio-proxy\<close>, of
  which the first has no image: the loop stops at the first, so the message is reported
  although a container of that name with an image is in the list.
\<close>

theorem pod_missing_proxy_counterexample:
  "Analyze exampleSystemNamespace [''canary''] exampleContext = Inr exampleLocals \<and>
   twicePod \<in> set (Pods exampleContext) \<and>
   Message twicePod = PodMessage
     \<lparr>GetNamespace = ''ns4'', GetLabels = Map.empty, GetAnnotations = Map.empty,
      Containers = [proxyContainer [], proxyContainer ''proxyv2'']\<rparr> \<and>
   ''ns4'' \<in> dom (injectedNamespaces exampleLocals) \<and>
   \<not> EqualFold (index Map.empty SidecarInjectName) ''false'' \<and>
   proxyContainer ''proxyv2'' \<in> set [proxyContainer [], proxyContainer ''proxyv2''] \<and>
   container_Name (proxyContainer ''proxyv2'') = istioProxyName \<and>
   container_Image (proxyContainer ''proxyv2'') \<noteq> [] \<and>
   (K8SCoreV1Pods, PodMissingProxy twicePod) \<in> set (reports exampleLocals)"
proof -
  have "(K8SCoreV1Pods, PodMissingProxy twicePod) \<in> set (reports exampleLocals)"
    by (simp add: exampleLocals_def)
  then show ?thesis
    by (simp add: exampleContext_run example_pod_members example_pods example_injected
          example_annotations example_containers EqualFold_empty del: EqualFold.simps)
qed

subsection \<open>C8\<close>

lemma hasOutcome_unique: "hasOutcome r s a \<Longrightarrow> hasOutcome r s b \<Longrightarrow> a = b"
  by (cases a; cases b)
     (auto simp: hasOutcome_def Let_def split: list.splits Diagnostic.splits)

lemma effect_outcome:
  assumes user: "\<not> f (FullName (Metadata r))"
  shows "(\<exists>d. reports (namespaceEffect f cpr revs r) = [(K8SCoreV1Namespaces, d)] \<and>
            (d = NamespaceNotInjected r (FullName (Metadata r)) (FullName (Metadata r)) \<or>
             d = NamespaceMultipleInjectionLabels r (FullName (Metadata r)) (FullName (Metadata r)) \<or>
             (\<exists>v known. d = NamespaceInvalidInjectorRevision r v (FullName (Metadata r)) known)) \<and>
            injectedNamespaces (namespaceEffect f cpr revs r) (FullName (Metadata r)) = None) \<or>
         (reports (namespaceEffect f cpr revs r) = [] \<and>
            (injectedNamespaces (namespaceEffect f cpr revs r) (FullName (Metadata r)) = None \<or>
             injectedNamespaces (namespaceEffect f cpr revs r) (FullName (Metadata r)) = Some True))"
  using user
  by (simp add: namespaceEffect_def resolveNamespace_def initialLocals_def Report_def Let_def)

text \<open>
  C8: the outcomes are told apart by what a run shows of the namespace: the one message
  about it on the namespace collection, if any, and whether its name is in the injected
  set. Every non-system namespace has exactly one of the five outcomes, and at most one
  message is reported about it.
\<close>

theorem namespace_outcome_exclusive:
  assumes typed: "list_all holdsPod (Pods c)"
    and dist: "distinct (map (\<lambda>r. FullName (Metadata r)) (Namespaces c))"
    and r: "r \<in> set (Namespaces c)"
    and user: "\<not> IsSystemNamespace (FullName (Metadata r))"
  shows "\<exists>s. Analyze IsSystemNamespace revisions c = Inr s \<and>
     (\<exists>!out. hasOutcome r s out) \<and>
     length (reportsAbout K8SCoreV1Namespaces r (reports s)) \<le> 1"
proof -
  from Analyze_namespace [OF typed dist r, of IsSystemNamespace revisions] obtain s where
    run: "Analyze IsSystemNamespace revisions c = Inr s"
    and rep: "reportsAbout K8SCoreV1Namespaces r (reports s) =
       reports (namespaceEffect IsSystemNamespace (controlPlaneRevisions s) revisions r)"
    and inj: "injectedNamespaces s (FullName (Metadata r)) =
       injectedNamespaces (namespaceEffect IsSystemNamespace (controlPlaneRevisions s) revisions r)
         (FullName (Metadata r))"
    by blast
  from effect_outcome [where f = IsSystemNamespace and r = r, OF user,
      of "controlPlaneRevisions s" revisions]
  have shape:
    "(\<exists>d. reportsAbout K8SCoreV1Namespaces r (reports s) = [(K8SCoreV1Namespaces, d)] \<and>
        (d = NamespaceNotInjected r (FullName (Metadata r)) (FullName (Metadata r)) \<or>
         d = NamespaceMultipleInjectionLabels r (FullName (Metadata r)) (FullName (Metadata r)) \<or>
         (\<exists>v known. d = NamespaceInvalidInjectorRevision r v (FullName (Metadata r)) known)) \<and>
        injectedNamespaces s (FullName (Metadata r)) = None) \<or>
     (reportsAbout K8SCoreV1Namespaces r (reports s) = [] \<and>
        (injectedNamespaces s (FullName (Metadata r)) = None \<or>
         injectedNamespaces s (FullName (Metadata r)) = Some True))"
    by (simp only: rep inj)
  then have some: "\<exists>out. hasOutcome r s out"
  proof (elim disjE exE conjE)
    fix d
    assume "reportsAbout K8SCoreV1Namespaces r (reports s) = [(K8SCoreV1Namespaces, d)]"
      "d = NamespaceNotInjected r (FullName (Metadata r)) (FullName (Metadata r))"
      "injectedNamespaces s (FullName (Metadata r)) = None"
    then have "hasOutcome r s NotInjectedByAbsence" by (simp add: hasOutcome_def)
    then show ?thesis ..
  next
    fix d
    assume "reportsAbout K8SCoreV1Namespaces r (reports s) = [(K8SCoreV1Namespaces, d)]"
      "d = NamespaceMultipleInjectionLabels r (FullName (Metadata r)) (FullName (Metadata r))"
      "injectedNamespaces s (FullName (Metadata r)) = None"
    then have "hasOutcome r s MultipleLabelConflict" by (simp add: hasOutcome_def)
    then show ?thesis ..
  next
    fix d v known
    assume "reportsAbout K8SCoreV1Namespaces r (reports s) = [(K8SCoreV1Namespaces, d)]"
      "d = NamespaceInvalidInjectorRevision r v (FullName (Metadata r)) known"
      "injectedNamespaces s (FullName (Metadata r)) = None"
    then have "hasOutcome r s InvalidRevision" by (simp add: hasOutcome_def)
    then show ?thesis ..
  next
    assume "reportsAbout K8SCoreV1Namespaces r (reports s) = []"
      "injectedNamespaces s (FullName (Metadata r)) = None"
    then have "hasOutcome r s ExplicitlyDisabled" by (simp add: hasOutcome_def)
    then show ?thesis ..
  next
    assume "reportsAbout K8SCoreV1Namespaces r (reports s) = []"
      "injectedNamespaces s (FullName (Metadata r)) = Some True"
    then have "hasOutcome r s Enabled" by (simp add: hasOutcome_def)
    then show ?thesis ..
  qed
  then have one: "\<exists>!out. hasOutcome r s out"
    using hasOutcome_unique by blast
  from shape have "length (reportsAbout K8SCoreV1Namespaces r (reports s)) \<le> 1"
    by auto
  with run one show ?thesis by blast
qed

theorem namespace_outcome_exclusive_witness:
  "list_all holdsPod (Pods exampleContext) \<and>
   distinct (map (\<lambda>r. FullName (Metadata r)) (Namespaces exampleContext)) \<and>
   ns5 \<in> set (Namespaces exampleContext) \<and>
   \<not> exampleSystemNamespace ''ns5'' \<and>
   (\<exists>s. Analyze exampleSystemNamespace [''canary''] exampleContext = Inr s \<and>
      (\<exists>!out. hasOutcome ns5 s out) \<and>
      hasOutcome ns5 s InvalidRevision \<and>
      length (reportsAbout K8SCoreV1Namespaces ns5 (reports s)) \<le> 1)"
proof -
  have user: "\<not> exampleSystemNamespace (FullName (Metadata ns5))"
    by (simp add: example_names example_user)
  have "reportsAbout K8SCoreV1Namespaces ns5 (reports exampleLocals) =
      [(K8SCoreV1Namespaces, NamespaceInvalidInjectorRevision ns5 ''stale'' ''ns5'' ''canary'')]"
    by (simp add: reportsAbout_def exampleLocals_def example_defs)
  moreover have "injectedNamespaces exampleLocals ''ns5'' = None"
    by (simp add: exampleLocals_def)
  ultimately have invalid: "hasOutcome ns5 exampleLocals InvalidRevision"
    by (simp add: hasOutcome_def example_names)
  from namespace_outcome_exclusive [where IsSystemNamespace = exampleSystemNamespace
      and revisions = "[''canary'']", OF exampleContext_typed exampleContext_distinct
      example_members(6) user]
  show ?thesis
    using invalid
    by (simp add: exampleContext_run exampleContext_typed exampleContext_distinct
          example_members example_user)
qed

subsection \<open>C10\<close>

lemma namespaceEffect_same_join:
  "Join revs1 '', '' = Join revs2 '', '' \<Longrightarrow>
   namespaceEffect f cpr revs1 r = namespaceEffect f cpr revs2 r"
  by (simp add: namespaceEffect_def resolveNamespace_def Let_def)

lemma namespaceEffect_injected_any_order:
  "injectedNamespaces (namespaceEffect f cpr revs1 r) =
   injectedNamespaces (namespaceEffect f cpr revs2 r)"
  by (simp add: namespaceEffect_def resolveNamespace_def Let_def Report_def)

lemma namespaceEffect_reports_any_order:
  "map withoutKnownRevisions (reports (namespaceEffect f cpr revs1 r)) =
   map withoutKnownRevisions (reports (namespaceEffect f cpr revs2 r))"
  by (simp add: namespaceEffect_def resolveNamespace_def Let_def Report_def initialLocals_def
        withoutKnownRevisions_def)

lemma injectedBy_any_order: "injectedBy f cpr revs1 nss = injectedBy f cpr revs2 nss"
  by (simp add: injectedBy_def namespaceEffect_injected_any_order [of f cpr revs1 _ revs2])

lemma rangeOrder_at_most_one:
  assumes "rangeOrder m ks1" and "rangeOrder m ks2" and "card (dom m) \<le> 1"
  shows "ks1 = ks2"
proof -
  from assms have d1: "distinct ks1" and d2: "distinct ks2" and same: "set ks1 = set ks2"
    and c1: "card (set ks1) \<le> 1" and c2: "card (set ks2) \<le> 1"
    by (simp_all add: rangeOrder_def)
  from d1 c1 have l1: "length ks1 \<le> 1" by (simp add: distinct_card)
  from d2 c2 have l2: "length ks2 \<le> 1" by (simp add: distinct_card)
  from l1 l2 same show ?thesis
    by (cases ks1; cases ks2) auto
qed

text \<open>
  C10, as amended: two runs on the same snapshot end with the same revision map and the
  same injected set, and report messages of the same kinds about the same resources in the
  same order, which differ at most in the known-revisions argument of the
  invalid-revision messages; each run joins the revisions there in the order in which its
  loop over the revision map yielded them. The two sequences are identical when the two
  joined strings are equal, as they are when the control plane has at most one revision.
\<close>

theorem analysis_determined_up_to_range_order:
  assumes typed: "list_all holdsPod (Pods c)"
  shows "\<exists>s1 s2. Analyze IsSystemNamespace revisions1 c = Inr s1 \<and>
     Analyze IsSystemNamespace revisions2 c = Inr s2 \<and>
     controlPlaneRevisions s1 = controlPlaneRevisions s2 \<and>
     injectedNamespaces s1 = injectedNamespaces s2 \<and>
     map withoutKnownRevisions (reports s1) = map withoutKnownRevisions (reports s2) \<and>
     (Join revisions1 '', '' = Join revisions2 '', '' \<longrightarrow> reports s1 = reports s2) \<and>
     (rangeOrder (controlPlaneRevisions s1) revisions1 \<and>
      rangeOrder (controlPlaneRevisions s2) revisions2 \<and>
      card (dom (controlPlaneRevisions s1)) \<le> 1 \<longrightarrow> reports s1 = reports s2)"
proof -
  let ?cpr = "gathered (Pods c) Map.empty"
  let ?inj = "\<lambda>revs. injectedBy IsSystemNamespace ?cpr revs (Namespaces c)"
  let ?nsr = "\<lambda>revs. concat (map (\<lambda>r. reports (namespaceEffect IsSystemNamespace ?cpr revs r))
                  (Namespaces c))"
  let ?s = "\<lambda>revs. \<lparr>controlPlaneRevisions = ?cpr, injectedNamespaces = ?inj revs,
              reports = ?nsr revs @ concat (map (podReports (?inj revs)) (Pods c))\<rparr>"
  have run1: "Analyze IsSystemNamespace revisions1 c = Inr (?s revisions1)"
    by (rule Analyze_eq [OF typed])
  have run2: "Analyze IsSystemNamespace revisions2 c = Inr (?s revisions2)"
    by (rule Analyze_eq [OF typed])
  have inj: "?inj revisions1 = ?inj revisions2"
    by (rule injectedBy_any_order)
  have nsr: "map withoutKnownRevisions (?nsr revisions1) = map withoutKnownRevisions (?nsr revisions2)"
    by (simp add: map_concat o_def
          namespaceEffect_reports_any_order [of IsSystemNamespace ?cpr revisions1 _ revisions2])
  have erased: "map withoutKnownRevisions (reports (?s revisions1)) =
      map withoutKnownRevisions (reports (?s revisions2))"
    by (simp add: nsr inj)
  have joined: "reports (?s revisions1) = reports (?s revisions2)"
    if "Join revisions1 '', '' = Join revisions2 '', ''"
    by (simp add: inj namespaceEffect_same_join [OF that])
  have one: "reports (?s revisions1) = reports (?s revisions2)"
    if "rangeOrder (controlPlaneRevisions (?s revisions1)) revisions1 \<and>
        rangeOrder (controlPlaneRevisions (?s revisions2)) revisions2 \<and>
        card (dom (controlPlaneRevisions (?s revisions1))) \<le> 1"
  proof -
    from that have "rangeOrder ?cpr revisions1" and "rangeOrder ?cpr revisions2"
      and "card (dom ?cpr) \<le> 1"
      by simp_all
    then have "revisions1 = revisions2"
      by (rule rangeOrder_at_most_one)
    then show ?thesis by simp
  qed
  show ?thesis
  proof (intro exI conjI impI)
    show "Analyze IsSystemNamespace revisions1 c = Inr (?s revisions1)" by (rule run1)
    show "Analyze IsSystemNamespace revisions2 c = Inr (?s revisions2)" by (rule run2)
    show "controlPlaneRevisions (?s revisions1) = controlPlaneRevisions (?s revisions2)" by simp
    show "injectedNamespaces (?s revisions1) = injectedNamespaces (?s revisions2)"
      by (simp add: inj)
    show "map withoutKnownRevisions (reports (?s revisions1)) =
      map withoutKnownRevisions (reports (?s revisions2))" by (rule erased)
    show "reports (?s revisions1) = reports (?s revisions2)"
      if "Join revisions1 '', '' = Join revisions2 '', ''" using that by (rule joined)
    show "reports (?s revisions1) = reports (?s revisions2)"
      if "rangeOrder (controlPlaneRevisions (?s revisions1)) revisions1 \<and>
        rangeOrder (controlPlaneRevisions (?s revisions2)) revisions2 \<and>
        card (dom (controlPlaneRevisions (?s revisions1))) \<le> 1" using that by (rule one)
  qed
qed

theorem analysis_determined_up_to_range_order_witness:
  "list_all holdsPod (Pods exampleContext) \<and>
   Join [''canary''] '', '' = Join [''canary''] '', '' \<and>
   (\<exists>s1 s2. Analyze exampleSystemNamespace [''canary''] exampleContext = Inr s1 \<and>
      Analyze exampleSystemNamespace [''canary''] exampleContext = Inr s2 \<and>
      rangeOrder (controlPlaneRevisions s1) [''canary''] \<and>
      rangeOrder (controlPlaneRevisions s2) [''canary''] \<and>
      card (dom (controlPlaneRevisions s1)) \<le> 1 \<and>
      reports s1 = reports s2) \<and>
   list_all holdsPod (Pods twoRevisionsContext) \<and>
   (\<exists>s1 s2. Analyze exampleSystemNamespace [''a'', ''b''] twoRevisionsContext = Inr s1 \<and>
      Analyze exampleSystemNamespace [''b'', ''a''] twoRevisionsContext = Inr s2 \<and>
      controlPlaneRevisions s1 = controlPlaneRevisions s2 \<and>
      injectedNamespaces s1 = injectedNamespaces s2 \<and>
      map withoutKnownRevisions (reports s1) = map withoutKnownRevisions (reports s2))"
proof -
  have typed: "list_all holdsPod (Pods twoRevisionsContext)"
    by (simp add: example_defs holdsPod_def)
  have card: "card (dom (controlPlaneRevisions exampleLocals)) \<le> 1"
    by (simp add: exampleLocals_def)
  from analysis_determined_up_to_range_order [where IsSystemNamespace = exampleSystemNamespace
      and ?revisions1.0 = "[''canary'']" and ?revisions2.0 = "[''canary'']",
      OF exampleContext_typed]
  have one: "\<exists>s1 s2. Analyze exampleSystemNamespace [''canary''] exampleContext = Inr s1 \<and>
      Analyze exampleSystemNamespace [''canary''] exampleContext = Inr s2 \<and>
      rangeOrder (controlPlaneRevisions s1) [''canary''] \<and>
      rangeOrder (controlPlaneRevisions s2) [''canary''] \<and>
      card (dom (controlPlaneRevisions s1)) \<le> 1 \<and>
      reports s1 = reports s2"
    using card by (simp add: exampleContext_run exampleLocals_fields)
  from analysis_determined_up_to_range_order [where IsSystemNamespace = exampleSystemNamespace
      and ?revisions1.0 = "[''a'', ''b'']" and ?revisions2.0 = "[''b'', ''a'']", OF typed]
  have two: "\<exists>s1 s2. Analyze exampleSystemNamespace [''a'', ''b''] twoRevisionsContext = Inr s1 \<and>
      Analyze exampleSystemNamespace [''b'', ''a''] twoRevisionsContext = Inr s2 \<and>
      controlPlaneRevisions s1 = controlPlaneRevisions s2 \<and>
      injectedNamespaces s1 = injectedNamespaces s2 \<and>
      map withoutKnownRevisions (reports s1) = map withoutKnownRevisions (reports s2)"
    by blast
  from one two typed exampleContext_typed show ?thesis by simp
qed

text \<open>
  The claim as written fails where the control plane has two revisions and a namespace
  asks for an unknown one: both orders of the two keys are orders of the loop over the
  map, and the two runs report different lists of known revisions.
\<close>

theorem analysis_determined_up_to_range_order_counterexample:
  "Analyze exampleSystemNamespace [''a'', ''b''] twoRevisionsContext =
     Inr \<lparr>controlPlaneRevisions = [''a'' \<mapsto> True, ''b'' \<mapsto> True],
          injectedNamespaces = Map.empty,
          reports =
            [(K8SCoreV1Namespaces,
              NamespaceInvalidInjectorRevision ns5 ''stale'' ''ns5'' ''a, b'')]\<rparr> \<and>
   Analyze exampleSystemNamespace [''b'', ''a''] twoRevisionsContext =
     Inr \<lparr>controlPlaneRevisions = [''a'' \<mapsto> True, ''b'' \<mapsto> True],
          injectedNamespaces = Map.empty,
          reports =
            [(K8SCoreV1Namespaces,
              NamespaceInvalidInjectorRevision ns5 ''stale'' ''ns5'' ''b, a'')]\<rparr> \<and>
   rangeOrder [''a'' \<mapsto> True, ''b'' \<mapsto> True] [''a'', ''b''] \<and>
   rangeOrder [''a'' \<mapsto> True, ''b'' \<mapsto> True] [''b'', ''a''] \<and>
   [(K8SCoreV1Namespaces, NamespaceInvalidInjectorRevision ns5 ''stale'' ''ns5'' ''a, b'')] \<noteq>
   [(K8SCoreV1Namespaces, NamespaceInvalidInjectorRevision ns5 ''stale'' ''ns5'' ''b, a'')]"
  by (simp add: twoRevisionsContext_run_ab twoRevisionsContext_run_ba twoRevisions_rangeOrder)

end
